theory Spec2Isabelle
  imports Complex_Main "HOL-Library.Log_Nat"
begin

section \<open>Numbers\<close>

text \<open>
  The TypeScript sources compute with JavaScript numbers (IEEE-754 doubles). They are read
  in two ways.

  In the exact reading a number is a \<open>real\<close> and every arithmetic operation is the exact
  one: neither rounding nor overflow is part of it. The algebraic properties of transforms
  and poses are stated in this reading, in exact arithmetic. The concrete inputs
  evaluated in it are small dyadic rationals (such as \<open>1/2\<close>, \<open>1\<close>, \<open>2\<close>), on which each
  double operation of the code is exact and agrees with the real one. Where the code guards
  a divisor itself, the guarded branch uses the real division. Where the code divides
  without a guard, the division is \<open>exact_div\<close>: its value \<open>None\<close> is the division by
  zero, the one operation of the exact reading whose result is no real number (the double
  is an infinity or NaN). A quotient too large for a double is a real number like any
  other here; overflow belongs to the second reading.

  In the double reading a number is a double, and every operation rounds its exact result
  to the nearest double, overflows to an infinity and propagates NaN, as IEEE-754
  prescribes. The inversion of a quaternion is stated in this reading, since what it
  returns depends on the range of the doubles.
\<close>

definition exact_div :: "real \<Rightarrow> real \<Rightarrow> real option" where
  "exact_div a b = (if b = 0 then None else Some (a / b))"

subsection \<open>Doubles\<close>

text \<open>
  A double is a finite number, an infinity or NaN. The finite doubles are the numbers
  \<open>m * 2 ^ e\<close> with integers \<open>\<bar>m\<bar> < 2 ^ 53\<close> and \<open>- 1074 \<le> e \<le> 971\<close>: the multiples
  of \<open>2 ^ - 1074\<close> with a significand of at most 53 bits. The two zeros of IEEE-754 are
  one value here, and there is one NaN: the functions modelled compare with \<open>=== 0\<close>, which
  holds for both zeros, and never divide by a zero.
\<close>

datatype f64 = Finite real | PosInf | NegInf | NaN

text \<open>The nearest integer, a tie going to the even one.\<close>

definition round_half_even :: "real \<Rightarrow> int" where
  "round_half_even x =
    (let f = \<lfloor>x\<rfloor>; d = x - of_int f
     in if d < 1 / 2 then f else if 1 / 2 < d then f + 1 else if even f then f else f + 1)"

text \<open>
  \<open>f64_round r\<close> is the double nearest to the real number \<open>r\<close>, a tie going to the even
  significand: the rounding that ends every arithmetic operation on doubles. The
  magnitude is taken in units of the smallest positive double, \<open>n = \<bar>r\<bar> * 2 ^ 1074\<close>.
  Its integer part has \<open>bitlen \<lfloor>n\<rfloor>\<close> bits, of which a double keeps the leading 53: the
  \<open>sh\<close> bits below them are rounded away (none when \<open>n < 2 ^ 53\<close>: the subnormal doubles
  and the lowest normal ones are the multiples of the unit). A rounded magnitude of
  \<open>2 ^ 1024\<close>, that is \<open>2 ^ 2098\<close> units, or more is an infinity.
\<close>

definition f64_round :: "real \<Rightarrow> f64" where
  "f64_round r =
    (let n = \<bar>r\<bar> * 2 ^ 1074;
         sh = nat (bitlen \<lfloor>n\<rfloor> - 53);
         m = round_half_even (n / 2 ^ sh);
         v = of_int m * 2 ^ sh
     in if 2 ^ 2098 \<le> v then (if r < 0 then NegInf else PosInf)
        else Finite (sgn r * v / 2 ^ 1074))"

text \<open>
  The operations \<open>- a\<close>, \<open>a + b\<close>, \<open>a * b\<close> and \<open>a / b\<close> of JavaScript. On finite
  operands the result is the exact one, rounded (a non-zero number divided by zero is an
  infinity, zero divided by zero is NaN). NaN is contagious; the sum of opposite
  infinities, the product of zero and an infinity and the quotient of two infinities are
  NaN; the other results with an infinite operand are the infinity or zero of IEEE-754.
\<close>

definition f64_neg :: "f64 \<Rightarrow> f64" where
  "f64_neg a =
    (case a of Finite x \<Rightarrow> Finite (- x) | PosInf \<Rightarrow> NegInf | NegInf \<Rightarrow> PosInf | NaN \<Rightarrow> NaN)"

definition f64_add :: "f64 \<Rightarrow> f64 \<Rightarrow> f64" where
  "f64_add a b =
    (case (a, b) of
       (Finite x, Finite y) \<Rightarrow> f64_round (x + y)
     | (NaN, _) \<Rightarrow> NaN
     | (_, NaN) \<Rightarrow> NaN
     | (PosInf, NegInf) \<Rightarrow> NaN
     | (NegInf, PosInf) \<Rightarrow> NaN
     | (Finite x, b) \<Rightarrow> b
     | (a, _) \<Rightarrow> a)"

definition f64_mul :: "f64 \<Rightarrow> f64 \<Rightarrow> f64" where
  "f64_mul a b =
    (case (a, b) of
       (Finite x, Finite y) \<Rightarrow> f64_round (x * y)
     | (NaN, _) \<Rightarrow> NaN
     | (_, NaN) \<Rightarrow> NaN
     | (Finite x, b) \<Rightarrow> (if x = 0 then NaN else if 0 < x then b else f64_neg b)
     | (a, Finite y) \<Rightarrow> (if y = 0 then NaN else if 0 < y then a else f64_neg a)
     | (PosInf, b) \<Rightarrow> b
     | (NegInf, b) \<Rightarrow> f64_neg b)"

definition f64_div :: "f64 \<Rightarrow> f64 \<Rightarrow> f64" where
  "f64_div a b =
    (case (a, b) of
       (Finite x, Finite y) \<Rightarrow>
         (if y = 0 then (if x = 0 then NaN else if 0 < x then PosInf else NegInf)
          else f64_round (x / y))
     | (NaN, _) \<Rightarrow> NaN
     | (_, NaN) \<Rightarrow> NaN
     | (Finite x, _) \<Rightarrow> Finite 0
     | (a, Finite y) \<Rightarrow> (if 0 \<le> y then a else f64_neg a)
     | (_, _) \<Rightarrow> NaN)"

text \<open>
  A division on doubles does not fail. Where a claim is about the divisor being non-zero,
  the division is \<open>f64_div_checked\<close>, whose value \<open>None\<close> marks a division by zero.
\<close>

definition f64_div_checked :: "f64 \<Rightarrow> f64 \<Rightarrow> f64 option" where
  "f64_div_checked a b = (if b = Finite 0 then None else Some (f64_div a b))"

section \<open>Vec3 (class Vec3 extends Array)\<close>

text \<open>The three array slots \<open>[0]\<close>, \<open>[1]\<close>, \<open>[2]\<close>.\<close>

datatype Vec3 = Vec3 (v0: real) (v1: real) (v2: real)

text \<open>The four array slots of \<open>class Quat extends Array\<close>: x, y, z, w.\<close>

datatype Quat = Quat (q0: real) (q1: real) (q2: real) (q3: real)




definition Vec3_fromSub :: "Vec3 \<Rightarrow> Vec3 \<Rightarrow> Vec3" where
  "Vec3_fromSub a b = Vec3 (v0 a - v0 b) (v1 a - v1 b) (v2 a - v2 b)"



text \<open>\<open>norm ()\<close>: a zero magnitude leaves the vector as it is; the division is guarded.\<close>

definition Vec3_norm :: "Vec3 \<Rightarrow> Vec3" where
  "Vec3_norm a =
    (let mag = sqrt ((v0 a)\<^sup>2 + (v1 a)\<^sup>2 + (v2 a)\<^sup>2) in
     if mag \<noteq> 0 then
       (let mag = 1 / mag in Vec3 (v0 a * mag) (v1 a * mag) (v2 a * mag))
     else a)"


text \<open>\<open>fromQuat (quat, vec)\<close>: the receiver becomes \<open>vec\<close> rotated by \<open>quat\<close>.\<close>

definition Vec3_fromQuat :: "Quat \<Rightarrow> Vec3 \<Rightarrow> Vec3" where
  "Vec3_fromQuat quat vec =
    (let qx = q0 quat; qy = q1 quat; qz = q2 quat; qw = q3 quat;
         vx = v0 vec; vy = v1 vec; vz = v2 vec;
         x1 = (qy * vz) - (qz * vy);
         y1 = (qz * vx) - (qx * vz);
         z1 = (qx * vy) - (qy * vx);
         x2 = (qw * x1) + (qy * z1) - (qz * y1);
         y2 = (qw * y1) + (qz * x1) - (qx * z1);
         z2 = (qw * z1) + (qx * y1) - (qy * x1)
     in Vec3 (vx + (2 * x2)) (vy + (2 * y2)) (vz + (2 * z2)))"


section \<open>Quat\<close>

text \<open>\<open>mul (q)\<close>: the receiver times \<open>q\<close>.\<close>

definition Quat_mul :: "Quat \<Rightarrow> Quat \<Rightarrow> Quat" where
  "Quat_mul this q =
    (let ax = q0 this; ay = q1 this; az = q2 this; aw = q3 this;
         bx = q0 q; by = q1 q; bz = q2 q; bw = q3 q
     in Quat (ax * bw + aw * bx + ay * bz - az * by)
             (ay * bw + aw * by + az * bx - ax * bz)
             (az * bw + aw * bz + ax * by - ay * bx)
             (aw * bw - ax * bx - ay * by - az * bz))"

text \<open>\<open>pmul (q)\<close>: \<open>q\<close> times the receiver.\<close>

definition Quat_pmul :: "Quat \<Rightarrow> Quat \<Rightarrow> Quat" where
  "Quat_pmul this q =
    (let ax = q0 q; ay = q1 q; az = q2 q; aw = q3 q;
         bx = q0 this; by = q1 this; bz = q2 this; bw = q3 this
     in Quat (ax * bw + aw * bx + ay * bz - az * by)
             (ay * bw + aw * by + az * bx - ax * bz)
             (az * bw + aw * bz + ax * by - ay * bx)
             (aw * bw - ax * bx - ay * by - az * bz))"


text \<open>
  \<open>invert ()\<close>, in the double reading: the receiver is a quaternion of doubles and every
  operation is the one on doubles, in the order of the source (the sum of the four squares
  associates to the left). The test \<open>dot === 0\<close> holds for a zero and for nothing else;
  the division \<open>1.0 / dot\<close> is the checked one, so that a division by zero would show as
  \<open>None\<close>. The zero branch also prints a warning, which changes no value and is not
  modelled.
\<close>

datatype Quat64 = Quat64 (d0: f64) (d1: f64) (d2: f64) (d3: f64)

definition Quat_invert_f64 :: "Quat64 \<Rightarrow> Quat64 option" where
  "Quat_invert_f64 this =
    (let a0 = d0 this; a1 = d1 this; a2 = d2 this; a3 = d3 this;
         dot = f64_add (f64_add (f64_add (f64_mul a0 a0) (f64_mul a1 a1)) (f64_mul a2 a2))
                       (f64_mul a3 a3)
     in if dot = Finite 0 then Some (Quat64 (Finite 0) (Finite 0) (Finite 0) (Finite 0))
        else (case f64_div_checked (Finite 1.0) dot of
                None \<Rightarrow> None
              | Some inverted_dot_product \<Rightarrow>
                  Some (Quat64 (f64_mul (f64_neg a0) inverted_dot_product)
                               (f64_mul (f64_neg a1) inverted_dot_product)
                               (f64_mul (f64_neg a2) inverted_dot_product)
                               (f64_mul a3 inverted_dot_product))))"

text \<open>\<open>pmulInvert (q)\<close>: the inverse of \<open>q\<close> (zero when \<open>q\<close> is zero) times the receiver.\<close>

definition Quat_pmulInvert :: "Quat \<Rightarrow> Quat \<Rightarrow> Quat" where
  "Quat_pmulInvert this q =
    (let ax = q0 q; ay = q1 q; az = q2 q; aw = q3 q;
         dot = ax * ax + ay * ay + az * az + aw * aw;
         a = (if dot = 0 then Quat 0 0 0 0
              else (let dot_inv = 1.0 / dot
                    in Quat (- ax * dot_inv) (- ay * dot_inv) (- az * dot_inv) (aw * dot_inv)));
         ax = q0 a; ay = q1 a; az = q2 a; aw = q3 a;
         bx = q0 this; by = q1 this; bz = q2 this; bw = q3 this
     in Quat (ax * bw + aw * bx + ay * bz - az * by)
             (ay * bw + aw * by + az * bx - ax * bz)
             (az * bw + aw * bz + ax * by - ay * bx)
             (aw * bw - ax * bx - ay * by - az * bz))"

text \<open>\<open>fromAxisAngle (axis, rad)\<close>; \<open>Math.sin\<close> and \<open>Math.cos\<close> are the real functions.\<close>

definition Quat_fromAxisAngle :: "Vec3 \<Rightarrow> real \<Rightarrow> Quat" where
  "Quat_fromAxisAngle axis rad =
    (let half = rad * 0.5; s = sin half
     in Quat (v0 axis * s) (v1 axis * s) (v2 axis * s) (cos half))"


section \<open>Transform\<close>

record Transform =
  rot :: Quat
  pos :: Vec3
  scl :: Vec3

text \<open>\<open>new Transform ()\<close>: rotation \<open>(0, 0, 0, 1)\<close>, position zero, scale one.\<close>

definition Transform_new :: Transform where
  "Transform_new = \<lparr> rot = Quat 0 0 0 1, pos = Vec3 0 0 0, scl = Vec3 1 1 1 \<rparr>"

text \<open>The three helpers at the end of Transform.ts.\<close>

definition qTransform :: "Quat \<Rightarrow> Vec3 \<Rightarrow> Vec3" where
  "qTransform q v =
    (let qx = q0 q; qy = q1 q; qz = q2 q; qw = q3 q;
         vx = v0 v; vy = v1 v; vz = v2 v;
         x1 = qy * vz - qz * vy;
         y1 = qz * vx - qx * vz;
         z1 = qx * vy - qy * vx;
         x2 = qw * x1 + qy * z1 - qz * y1;
         y2 = qw * y1 + qz * x1 - qx * z1;
         z2 = qw * z1 + qx * y1 - qy * x1
     in Vec3 (vx + 2 * x2) (vy + 2 * y2) (vz + 2 * z2))"

text \<open>
  \<open>qInvert (q, out)\<close>, in the exact reading: the zero test guards the division. This is
  the function \<open>fromInvert\<close> calls.
\<close>

definition qInvert :: "Quat \<Rightarrow> Quat" where
  "qInvert q =
    (let a0 = q0 q; a1 = q1 q; a2 = q2 q; a3 = q3 q;
         dot = a0 * a0 + a1 * a1 + a2 * a2 + a3 * a3
     in if dot = 0 then Quat 0 0 0 0
        else (let inverse_dot_product = 1.0 / dot
              in Quat (- a0 * inverse_dot_product) (- a1 * inverse_dot_product)
                      (- a2 * inverse_dot_product) (a3 * inverse_dot_product)))"

text \<open>The same function in the double reading, operation by operation.\<close>

definition qInvert_f64 :: "Quat64 \<Rightarrow> Quat64 option" where
  "qInvert_f64 q =
    (let a0 = d0 q; a1 = d1 q; a2 = d2 q; a3 = d3 q;
         dot = f64_add (f64_add (f64_add (f64_mul a0 a0) (f64_mul a1 a1)) (f64_mul a2 a2))
                       (f64_mul a3 a3)
     in if dot = Finite 0 then Some (Quat64 (Finite 0) (Finite 0) (Finite 0) (Finite 0))
        else (case f64_div_checked (Finite 1.0) dot of
                None \<Rightarrow> None
              | Some inverse_dot_product \<Rightarrow>
                  Some (Quat64 (f64_mul (f64_neg a0) inverse_dot_product)
                               (f64_mul (f64_neg a1) inverse_dot_product)
                               (f64_mul (f64_neg a2) inverse_dot_product)
                               (f64_mul a3 inverse_dot_product))))"

definition qMul :: "Quat \<Rightarrow> Quat \<Rightarrow> Quat" where
  "qMul a b =
    (let ax = q0 a; ay = q1 a; az = q2 a; aw = q3 a;
         bx = q0 b; by = q1 b; bz = q2 b; bw = q3 b
     in Quat (ax * bw + aw * bx + ay * bz - az * by)
             (ay * bw + aw * by + az * bx - ax * bz)
             (az * bw + aw * bz + ax * by - ay * bx)
             (aw * bw - ax * bx - ay * by - az * bz))"

text \<open>
  \<open>mul (tran)\<close>: the receiver is the parent. The position is computed from the
  receiver's scale and rotation before either is overwritten.
\<close>

definition Transform_mul :: "Transform \<Rightarrow> Transform \<Rightarrow> Transform" where
  "Transform_mul this tran =
    (let p = Vec3 (v0 (scl this) * v0 (pos tran))
                  (v1 (scl this) * v1 (pos tran))
                  (v2 (scl this) * v2 (pos tran));
         p = qTransform (rot this) p
     in \<lparr> rot = qMul (rot this) (rot tran),
          pos = Vec3 (v0 (pos this) + v0 p) (v1 (pos this) + v1 p) (v2 (pos this) + v2 p),
          scl = Vec3 (v0 (scl this) * v0 (scl tran))
                     (v1 (scl this) * v1 (scl tran))
                     (v2 (scl this) * v2 (scl tran)) \<rparr>)"

text \<open>\<open>pmul (tran)\<close>: the receiver is the child, \<open>tran\<close> the parent.\<close>

definition Transform_pmul :: "Transform \<Rightarrow> Transform \<Rightarrow> Transform" where
  "Transform_pmul this tran =
    (let p = Vec3 (v0 (pos this) * v0 (scl tran))
                  (v1 (pos this) * v1 (scl tran))
                  (v2 (pos this) * v2 (scl tran));
         p = qTransform (rot tran) p
     in \<lparr> rot = qMul (rot tran) (rot this),
          pos = Vec3 (v0 p + v0 (pos tran)) (v1 p + v1 (pos tran)) (v2 p + v2 (pos tran)),
          scl = Vec3 (v0 (scl this) * v0 (scl tran))
                     (v1 (scl this) * v1 (scl tran))
                     (v2 (scl this) * v2 (scl tran)) \<rparr>)"

text \<open>\<open>fromMul (transform_parent, transform_child)\<close>.\<close>

definition Transform_fromMul :: "Transform \<Rightarrow> Transform \<Rightarrow> Transform" where
  "Transform_fromMul transform_parent transform_child =
    (let v = Vec3 (v0 (scl transform_parent) * v0 (pos transform_child))
                  (v1 (scl transform_parent) * v1 (pos transform_child))
                  (v2 (scl transform_parent) * v2 (pos transform_child));
         v = qTransform (rot transform_parent) v
     in \<lparr> rot = qMul (rot transform_parent) (rot transform_child),
          pos = Vec3 (v0 (pos transform_parent) + v0 v)
                     (v1 (pos transform_parent) + v1 v)
                     (v2 (pos transform_parent) + v2 v),
          scl = Vec3 (v0 (scl transform_parent) * v0 (scl transform_child))
                     (v1 (scl transform_parent) * v1 (scl transform_child))
                     (v2 (scl transform_parent) * v2 (scl transform_child)) \<rparr>)"

text \<open>
  \<open>fromInvert (t)\<close>, in the exact reading. The three divisions \<open>1 / t.scl[i]\<close> have no
  guard in the code: a zero scale component gives an infinity there, \<open>None\<close> here.
\<close>

definition Transform_fromInvert :: "Transform \<Rightarrow> Transform option" where
  "Transform_fromInvert t =
    (let r = qInvert (rot t)
     in (case (exact_div 1 (v0 (scl t)), exact_div 1 (v1 (scl t)), exact_div 1 (v2 (scl t))) of
           (Some s0, Some s1, Some s2) \<Rightarrow>
             (let p = Vec3 (- v0 (pos t) * s0) (- v1 (pos t) * s1) (- v2 (pos t) * s2)
              in Some \<lparr> rot = r, pos = qTransform r p, scl = Vec3 s0 s1 s2 \<rparr>)
         | _ \<Rightarrow> None))"

section \<open>Values, references and outcomes of the JavaScript runtime\<close>

text \<open>
  Reading an array at a number that is not the index of an element gives \<open>undefined\<close>:
  \<open>None\<close> here. Indices are integers (\<open>-1\<close> is the sentinel of the sources).
\<close>

definition js_index :: "'a list \<Rightarrow> int \<Rightarrow> 'a option" where
  "js_index xs i = (if 0 \<le> i \<and> i < int (length xs) then Some (xs ! nat i) else None)"

text \<open>A value of type \<open>Joint | null\<close> that may, at run time, also be \<open>undefined\<close>.\<close>

datatype 'a js_ref = Undefined | Null | Ref 'a

text \<open>Reading a property of \<open>undefined\<close> or \<open>null\<close> throws a \<open>TypeError\<close>.\<close>

datatype error = TypeError

text \<open>
  How a call ends: it throws (the state reached at the throw is kept), it reports an
  error on the console and returns, or it returns normally.
\<close>

datatype 'a result = Throws error 'a | ReportsError 'a | Returns 'a

fun state_of :: "'a result \<Rightarrow> 'a" where
  "state_of (Throws e s) = s"
| "state_of (ReportsError s) = s"
| "state_of (Returns s) = s"

section \<open>Joint\<close>

text \<open>
  The field \<open>idx\<close> of class Joint is \<open>jidx\<close> here, since a chain item has a field
  \<open>idx\<close> of its own.
\<close>

record Joint =
  name :: string
  index :: int
  pindex :: int
  isRoot :: bool
  children :: "int list"
  local :: Transform
  world :: Transform
  jidx :: int

text \<open>\<open>clone ()\<close>: a new Joint (whose \<open>idx\<close> is the initial 1) with the other fields copied.\<close>

definition Joint_clone :: "Joint \<Rightarrow> Joint" where
  "Joint_clone this =
    \<lparr> name = name this, index = index this, pindex = pindex this, isRoot = isRoot this,
      children = children this, local = local this, world = world this, jidx = 1 \<rparr>"

section \<open>Pose\<close>

text \<open>
  Poses are objects that refer to each other (\<open>srcPose\<close>), and \<open>clone\<close> and \<open>reset\<close>
  depend on which object a reference denotes. So poses live in a store, a list of poses;
  a reference is a position in the store, \<open>null\<close> is \<open>None\<close>. A reference held by the
  program always denotes an allocated object, that is, a position below the length of the
  store. Each pose owns its joints and each joint its two transforms (the sources create
  them with the object and never share them), so these are plain values.
\<close>

record Pose =
  srcPose :: "nat option"
  nameIdx :: "(string \<times> int) list"
  joints :: "Joint list"
  rootOffset :: Transform
  poseOffset :: Transform

type_synonym store = "Pose list"

datatype joint_key = Num int | Str string

text \<open>
  \<open>getJoint (o)\<close>. For a number the result is \<open>this.joints[o]\<close> as it is, hence
  \<open>undefined\<close> when \<open>o\<close> is not an index; only an unknown name gives \<open>null\<close>.
\<close>

definition getJoint :: "Pose \<Rightarrow> joint_key \<Rightarrow> Joint js_ref" where
  "getJoint this k =
    (case k of
       Num n \<Rightarrow> (case js_index (joints this) n of None \<Rightarrow> Undefined | Some j \<Rightarrow> Ref j)
     | Str s \<Rightarrow>
        (case map_of (nameIdx this) s of
           Some i \<Rightarrow> (case js_index (joints this) i of None \<Rightarrow> Undefined | Some j \<Rightarrow> Ref j)
         | None \<Rightarrow> Null))"

text \<open>
  \<open>clone ()\<close>: the new pose is allocated at the end of the store; the result is its
  reference and the new store. \<open>this.srcPose ?? this\<close> is the receiver's source when it
  has one, and the receiver itself otherwise.
\<close>

definition Pose_clone :: "store \<Rightarrow> nat \<Rightarrow> nat \<times> store" where
  "Pose_clone st this =
    (let p = \<lparr> srcPose = (case srcPose (st ! this) of Some s \<Rightarrow> Some s | None \<Rightarrow> Some this),
               nameIdx = nameIdx (st ! this),
               joints = map Joint_clone (joints (st ! this)),
               rootOffset = rootOffset (st ! this),
               poseOffset = poseOffset (st ! this) \<rparr>
     in (length st, st @ [p]))"

text \<open>
  The loop of \<open>reset ()\<close>, from index \<open>i\<close> for \<open>n\<close> more rounds: \<open>js\<close> are the
  receiver's joints, \<open>ss\<close> the joints of the source. \<open>this.srcPose.joints[i].local\<close>
  throws when the source has no joint \<open>i\<close>.
\<close>

fun reset_loop :: "Joint list \<Rightarrow> Joint list \<Rightarrow> nat \<Rightarrow> nat \<Rightarrow> Joint list result" where
  "reset_loop js ss i 0 = Returns js"
| "reset_loop js ss i (Suc n) =
    (case js_index ss (int i) of
       None \<Rightarrow> Throws TypeError js
     | Some s \<Rightarrow> reset_loop (js[i := (js ! i)\<lparr> local := local s \<rparr>]) ss (Suc i) n)"

text \<open>
  \<open>reset ()\<close>. Without a source it logs a message and returns. When the source is the
  receiver itself, round \<open>i\<close> reads joint \<open>i\<close> before any round has changed it, so
  reading the source's joints once, before the loop, gives the same values.
\<close>

definition Pose_reset :: "store \<Rightarrow> nat \<Rightarrow> store result" where
  "Pose_reset st this =
    (case srcPose (st ! this) of
       None \<Rightarrow> ReportsError st
     | Some src \<Rightarrow>
        (case reset_loop (joints (st ! this)) (joints (st ! src)) 0 (length (joints (st ! this))) of
           Returns js \<Rightarrow> Returns (st[this := (st ! this)\<lparr> joints := js \<rparr>])
         | Throws e js \<Rightarrow> Throws e (st[this := (st ! this)\<lparr> joints := js \<rparr>])
         | ReportsError js \<Rightarrow> ReportsError (st[this := (st ! this)\<lparr> joints := js \<rparr>])))"

text \<open>\<open>setRot (i, rot)\<close>: \<open>this.joints[i].local\<close> throws when there is no joint \<open>i\<close>.\<close>

definition setRot :: "Pose \<Rightarrow> int \<Rightarrow> Quat \<Rightarrow> Pose result" where
  "setRot this i r =
    (case js_index (joints this) i of
       None \<Rightarrow> Throws TypeError this
     | Some j \<Rightarrow>
        Returns (this\<lparr> joints := (joints this)[nat i := j\<lparr> local := (local j)\<lparr> rot := r \<rparr> \<rparr>] \<rparr>))"

text \<open>
  One round of the loop of \<open>updateWorld ()\<close>, for the joint at position \<open>i\<close>. The
  parent's world transform is read from the array as it is in this round.
\<close>

definition updateWorld_step :: "Transform \<Rightarrow> Transform \<Rightarrow> Joint list \<Rightarrow> nat \<Rightarrow> Joint list result" where
  "updateWorld_step root_off pose_off js i =
    (let j = js ! i in
     if pindex j \<noteq> - 1 then
       (case js_index js (pindex j) of
          None \<Rightarrow> Throws TypeError js
        | Some parent \<Rightarrow> Returns (js[i := j\<lparr> world := Transform_fromMul (world parent) (local j) \<rparr>]))
     else
       Returns (js[i := j\<lparr> world := Transform_mul (Transform_fromMul root_off pose_off) (local j) \<rparr>]))"

fun updateWorld_loop :: "Transform \<Rightarrow> Transform \<Rightarrow> Joint list \<Rightarrow> nat \<Rightarrow> nat \<Rightarrow> Joint list result" where
  "updateWorld_loop root_off pose_off js i 0 = Returns js"
| "updateWorld_loop root_off pose_off js i (Suc n) =
    (case updateWorld_step root_off pose_off js i of
       Returns js' \<Rightarrow> updateWorld_loop root_off pose_off js' (Suc i) n
     | Throws e js' \<Rightarrow> Throws e js'
     | ReportsError js' \<Rightarrow> ReportsError js')"

definition updateWorld :: "Pose \<Rightarrow> Pose result" where
  "updateWorld this =
    (case updateWorld_loop (rootOffset this) (poseOffset this) (joints this) 0 (length (joints this)) of
       Returns js \<Rightarrow> Returns (this\<lparr> joints := js \<rparr>)
     | Throws e js \<Rightarrow> Throws e (this\<lparr> joints := js \<rparr>)
     | ReportsError js \<Rightarrow> ReportsError (this\<lparr> joints := js \<rparr>))"

text \<open>
  The \<open>while\<close> loop of \<open>getWorld\<close>: it climbs the parent indices and has no bound, so
  it is a partial function; \<open>None\<close> is the loop that never ends.
\<close>

partial_function (option) walk_up :: "Joint list \<Rightarrow> Joint \<Rightarrow> Transform \<Rightarrow> Transform result option" where
  "walk_up js joint out_transform =
    (if pindex joint \<noteq> - 1 then
       (case js_index js (pindex joint) of
          None \<Rightarrow> Some (Throws TypeError out_transform)
        | Some parent \<Rightarrow> walk_up js parent (Transform_pmul out_transform (local parent)))
     else Some (Returns out_transform))"

text \<open>
  \<open>getWorld (joint_idx, out_transform)\<close>. The test \<open>joint === null\<close> holds for \<open>null\<close>
  only; on \<open>undefined\<close> the next statement reads \<open>joint.local\<close> and throws.
\<close>

definition getWorld :: "Pose \<Rightarrow> int \<Rightarrow> Transform \<Rightarrow> Transform result option" where
  "getWorld this joint_idx out_transform =
    (if joint_idx = - 1 then
       Some (Returns (Transform_fromMul (rootOffset this) (poseOffset this)))
     else
       (case getJoint this (Num joint_idx) of
          Null \<Rightarrow> Some (ReportsError out_transform)
        | Undefined \<Rightarrow> Some (Throws TypeError out_transform)
        | Ref joint \<Rightarrow>
           (case walk_up (joints this) joint (local joint) of
              None \<Rightarrow> None
            | Some (Returns t) \<Rightarrow>
                Some (Returns (Transform_pmul (Transform_pmul t (poseOffset this)) (rootOffset this)))
            | Some r \<Rightarrow> Some r)))"

section \<open>Chain operators\<close>

text \<open>
  Modelled from the spec: the types \<open>RigItem\<close> and \<open>Retargeter\<close> are imported by the
  sources and not part of them. They have the fields the two \<open>apply\<close> methods read: an
  item carries its own joint index, its parent's index and a twist direction (which may be
  missing); a rig maps chain names to items; a retargeter holds a target rig and a working
  pose, each possibly \<open>null\<close>.
\<close>

record RigItem =
  idx :: int
  pidx :: int
  twist :: "Vec3 option"

record Rig =
  chains :: "(string \<times> RigItem list) list"

record Retargeter =
  tarRig :: "Rig option"
  pose :: "Pose option"

record AxisAdditive =
  chainName :: string
  onAxis :: string
  angle :: real

record ChainTwistAdditive =
  twistChainName :: string
  twistAngle :: real

text \<open>The value that a call of \<open>getWorld\<close> hands back, whether or not it reported an error.\<close>

fun returned :: "'a result \<Rightarrow> 'a option" where
  "returned (Throws e s) = None"
| "returned (ReportsError s) = Some s"
| "returned (Returns s) = Some s"

text \<open>
  \<open>AxisAdditive.apply (rt)\<close>. There is no test for a missing rig, chain or pose: each
  missing one throws at the first property read. All reads come before the one write,
  \<open>setRot\<close>, so a throw leaves the retargeter as it was.
\<close>

definition AxisAdditive_apply :: "AxisAdditive \<Rightarrow> Retargeter \<Rightarrow> Retargeter result option" where
  "AxisAdditive_apply this rt =
    (if angle this = 0 then Some (Returns rt)
     else
      (case tarRig rt of
         None \<Rightarrow> Some (Throws TypeError rt)
       | Some rig \<Rightarrow>
      (case map_of (chains rig) (chainName this) of
         None \<Rightarrow> Some (Throws TypeError rt)
       | Some ch \<Rightarrow>
      (case (pose rt, ch) of
         (None, _) \<Rightarrow> Some (Throws TypeError rt)
       | (Some p, []) \<Rightarrow> Some (Throws TypeError rt)
       | (Some p, itm # _) \<Rightarrow>
      (case getWorld p (pidx itm) Transform_new of
         None \<Rightarrow> None
       | Some w \<Rightarrow>
      (case (returned w, js_index (joints p) (idx itm)) of
         (None, _) \<Rightarrow> Some (Throws TypeError rt)
       | (Some ptran, None) \<Rightarrow> Some (Throws TypeError rt)
       | (Some ptran, Some j) \<Rightarrow>
          (let ctran = Transform_fromMul ptran (local j) in
           if onAxis this = ''y'' then
             (let axis = Vec3_fromQuat (rot ctran)
                           (case twist itm of None \<Rightarrow> Vec3 0 0 1 | Some t \<Rightarrow> t);
                  q = Quat_pmulInvert
                        (Quat_mul (Quat_fromAxisAngle axis (angle this)) (rot ctran)) (rot ptran)
              in (case setRot p (idx itm) q of
                    Returns p' \<Rightarrow> Some (Returns (rt\<lparr> pose := Some p' \<rparr>))
                  | Throws e p' \<Rightarrow> Some (Throws e rt)
                  | ReportsError p' \<Rightarrow> Some (ReportsError rt)))
           else Some (ReportsError rt))))))))"

text \<open>
  \<open>ChainTwistAdditive.apply (rt)\<close>. It returns at once for a zero angle or a missing
  rig, and warns and returns for a missing pose; a missing chain, an empty chain and a
  missing joint throw as above.
\<close>

definition ChainTwistAdditive_apply :: "ChainTwistAdditive \<Rightarrow> Retargeter \<Rightarrow> Retargeter result option" where
  "ChainTwistAdditive_apply this rt =
    (if twistAngle this = 0 then Some (Returns rt)
     else
      (case tarRig rt of
         None \<Rightarrow> Some (Returns rt)
       | Some rig \<Rightarrow>
      (case map_of (chains rig) (twistChainName this) of
         None \<Rightarrow> Some (Throws TypeError rt)
       | Some ch \<Rightarrow>
      (case (pose rt, ch) of
         (None, _) \<Rightarrow> Some (ReportsError rt)
       | (Some p, []) \<Rightarrow> Some (Throws TypeError rt)
       | (Some p, itm0 # _) \<Rightarrow>
      (let itm1 = last ch in
      (case getWorld p (pidx itm0) Transform_new of
         None \<Rightarrow> None
       | Some w \<Rightarrow>
      (case (returned w, js_index (joints p) (idx itm0)) of
         (None, _) \<Rightarrow> Some (Throws TypeError rt)
       | (Some ptran, None) \<Rightarrow> Some (Throws TypeError rt)
       | (Some ptran, Some j) \<Rightarrow>
          (let ctran = Transform_fromMul ptran (local j) in
           (case getWorld p (idx itm1) Transform_new of
              None \<Rightarrow> None
            | Some w1 \<Rightarrow>
           (case returned w1 of
              None \<Rightarrow> Some (Throws TypeError rt)
            | Some etran \<Rightarrow>
               (let axis = Vec3_norm (Vec3_fromSub (pos etran) (pos ctran));
                    q = Quat_pmulInvert
                          (Quat_mul (Quat_fromAxisAngle axis (twistAngle this)) (rot ctran))
                          (rot ptran)
                in (case setRot p (idx itm0) q of
                      Returns p' \<Rightarrow> Some (Returns (rt\<lparr> pose := Some p' \<rparr>))
                    | Throws e p' \<Rightarrow> Some (Throws e rt)
                    | ReportsError p' \<Rightarrow> Some (ReportsError rt)))))))))))))"

section \<open>BoneAutoMapper\<close>

datatype BoneCategory = Torso | Arms | Hands | Legs | Wings | Tail | UnknownCategory

datatype BoneSide = Left | Right | Center | UnknownSide

text \<open>The field \<open>name\<close> of the interface is \<open>meta_name\<close> here (a Joint has a \<open>name\<close>).\<close>

record BoneMetadata =
  meta_name :: string
  normalized_name :: string
  side :: BoneSide
  category :: BoneCategory
  parent_name :: "string option"

subsection \<open>Strings\<close>

text \<open>
  Bone names are ASCII strings. \<open>toLowerCase\<close> maps \<open>A\<close>..\<open>Z\<close> to \<open>a\<close>..\<open>z\<close>;
  \<open>startsWith\<close> and \<open>endsWith\<close> are the tests of the same names,
  \<open>str_includes\<close> is \<open>String.includes\<close>.
\<close>

definition lower_char :: "char \<Rightarrow> char" where
  "lower_char c =
    (let n = (of_char c :: nat) in if 65 \<le> n \<and> n \<le> 90 then char_of (n + 32) else c)"

definition toLowerCase :: "string \<Rightarrow> string" where
  "toLowerCase s = map lower_char s"

fun startsWith :: "string \<Rightarrow> string \<Rightarrow> bool" where
  "startsWith s [] = True"
| "startsWith [] (k # ks) = False"
| "startsWith (c # cs) (k # ks) = (c = k \<and> startsWith cs ks)"

definition endsWith :: "string \<Rightarrow> string \<Rightarrow> bool" where
  "endsWith s k = startsWith (rev s) (rev k)"

fun str_includes :: "string \<Rightarrow> string \<Rightarrow> bool" where
  "str_includes [] k = (k = [])"
| "str_includes (c # cs) k = (startsWith (c # cs) k \<or> str_includes cs k)"

subsection \<open>The regular expressions of the mapper\<close>

text \<open>The classes \<open>\w\<close>, \<open>\d\<close> and \<open>\s\<close> on ASCII characters.\<close>

definition is_word_char :: "char \<Rightarrow> bool" where
  "is_word_char c =
    (let n = (of_char c :: nat)
     in (48 \<le> n \<and> n \<le> 57) \<or> (65 \<le> n \<and> n \<le> 90) \<or> (97 \<le> n \<and> n \<le> 122) \<or> n = 95)"

definition is_digit :: "char \<Rightarrow> bool" where
  "is_digit c = (let n = (of_char c :: nat) in 48 \<le> n \<and> n \<le> 57)"

definition is_space :: "char \<Rightarrow> bool" where
  "is_space c = (let n = (of_char c :: nat) in (9 \<le> n \<and> n \<le> 13) \<or> n = 32)"

definition first_char :: "string \<Rightarrow> char option" where
  "first_char s = (case s of [] \<Rightarrow> None | c # cs \<Rightarrow> Some c)"

text \<open>
  \<open>\b\<close>: exactly one of the characters before and after the position is a word
  character; the start and the end of the input count as non-word.
\<close>

definition word_boundary :: "char option \<Rightarrow> char option \<Rightarrow> bool" where
  "word_boundary left_of right_of =
    ((case left_of of None \<Rightarrow> False | Some c \<Rightarrow> is_word_char c) \<noteq>
     (case right_of of None \<Rightarrow> False | Some c \<Rightarrow> is_word_char c))"

text \<open>
  A matcher tells, for a position of the input, given the character before the position
  (\<open>None\<close> at the start) and the input from the position on, whether the expression
  matches there, and if so how many characters (at least one) and what replaces them.
  \<open>replace_all\<close> is \<open>String.replace\<close> with a global expression: matches are taken from
  left to right, and the search goes on after each match.
\<close>

type_synonym matcher = "char option \<Rightarrow> string \<Rightarrow> (nat \<times> string) option"

fun replace_from :: "matcher \<Rightarrow> char option \<Rightarrow> nat \<Rightarrow> string \<Rightarrow> string" where
  "replace_from m prev skip [] = []"
| "replace_from m prev (Suc k) (c # cs) = replace_from m (Some c) k cs"
| "replace_from m prev 0 (c # cs) =
    (case m prev (c # cs) of
       Some (len, rep) \<Rightarrow> rep @ replace_from m (Some c) (len - 1) cs
     | None \<Rightarrow> c # replace_from m (Some c) 0 cs)"

definition replace_all :: "matcher \<Rightarrow> string \<Rightarrow> string" where
  "replace_all m s = replace_from m None 0 s"

text \<open>An alternation \<open>(a|b|...)\<close>: the first alternative, in order, that matches.\<close>

fun match_alternatives :: "string list \<Rightarrow> string \<Rightarrow> nat option" where
  "match_alternatives [] s = None"
| "match_alternatives (a # as) s =
    (if startsWith s a then Some (length a) else match_alternatives as s)"

text \<open>
  \<open>(a|b|...)\b\<close>: the first alternative that matches and ends at a word boundary
  (an alternative that matches but ends inside a word is given up for the next one).
\<close>

fun match_alternatives_b :: "string list \<Rightarrow> string \<Rightarrow> nat option" where
  "match_alternatives_b [] s = None"
| "match_alternatives_b (a # as) s =
    (if a \<noteq> [] \<and> startsWith s a \<and> word_boundary (Some (last a)) (first_char (drop (length a) s))
     then Some (length a) else match_alternatives_b as s)"

text \<open>\<open>/\b(a|b|...)\b/g\<close> with replacement \<open>rep\<close>.\<close>

definition m_words :: "string list \<Rightarrow> string \<Rightarrow> matcher" where
  "m_words alts rep prev s =
    (if word_boundary prev (first_char s)
     then map_option (\<lambda>n. (n, rep)) (match_alternatives_b alts s)
     else None)"

text \<open>\<open>/^(l|r)_/g\<close>, \<open>/_(l|r)$/g\<close> and \<open>/\.(l|r)$/g\<close>, each replaced by the empty string.\<close>

definition m_lr_prefix :: matcher where
  "m_lr_prefix prev s =
    (if prev = None \<and> (startsWith s ''l_'' \<or> startsWith s ''r_'') then Some (2, []) else None)"

definition m_lr_suffix :: matcher where
  "m_lr_suffix prev s = (if s = ''_l'' \<or> s = ''_r'' then Some (2, []) else None)"

definition m_dot_lr_suffix :: matcher where
  "m_dot_lr_suffix prev s = (if s = ''.l'' \<or> s = ''.r'' then Some (2, []) else None)"

text \<open>\<open>/__+/g\<close> replaced by one underscore: a run of two or more underscores.\<close>

definition m_underscores :: matcher where
  "m_underscores prev s =
    (if startsWith s ''__'' then Some (length (takeWhile (\<lambda>c. c = CHR ''_'') s), ''_'') else None)"

text \<open>\<open>/^_|_$/g\<close> replaced by the empty string.\<close>

definition m_edge_underscore :: matcher where
  "m_edge_underscore prev s =
    (if (prev = None \<and> startsWith s ''_'') \<or> s = ''_'' then Some (1, []) else None)"

text \<open>
  \<open>/[._]0*(\d+)$/g\<close> replaced by \<open>$1\<close>: a dot or underscore followed by digits up to
  the end. \<open>0*\<close> is greedy and takes the leading zeros, but leaves the last one to
  \<open>\d+\<close> when all digits are zeros.
\<close>

definition m_numeric_suffix :: matcher where
  "m_numeric_suffix prev s =
    (case s of
       [] \<Rightarrow> None
     | c # ds \<Rightarrow>
        (if (c = CHR ''.'' \<or> c = CHR ''_'') \<and> ds \<noteq> [] \<and> list_all is_digit ds
         then Some (length s,
                    (let r = dropWhile (\<lambda>d. d = CHR ''0'') ds in if r = [] then ''0'' else r))
         else None))"

subsection \<open>The classifier\<close>

definition categorize_bone :: "string \<Rightarrow> BoneCategory" where
  "categorize_bone bone_name =
    (let normalized = toLowerCase bone_name in
     if list_ex (str_includes normalized)
          [''spine'', ''chest'', ''neck'', ''head'', ''hips'', ''pelvis'', ''root'', ''cog'',
           ''center'', ''torso'', ''back'', ''ribcage'']
     then Torso
     else if list_ex (str_includes normalized)
          [''shoulder'', ''arm'', ''elbow'', ''wrist'', ''clavicle'', ''scapula'', ''upperarm'',
           ''forearm'']
     then Arms
     else if list_ex (str_includes normalized)
          [''hand'', ''finger'', ''thumb'', ''index'', ''middle'', ''ring'', ''pinky'', ''palm'',
           ''knuckle'', ''metacarpal'', ''phalanx'']
     then Hands
     else if list_ex (str_includes normalized)
          [''leg'', ''thigh'', ''knee'', ''ankle'', ''foot'', ''toe'', ''heel'', ''hip'',
           ''upperleg'', ''lowerleg'', ''shin'', ''calf'']
     then Legs
     else if list_ex (str_includes normalized) [''wing'', ''feather'', ''pinion''] then Wings
     else if list_ex (str_includes normalized) [''tail''] then Tail
     else UnknownCategory)"

text \<open>
  \<open>determine_bone_side\<close>. The patterns \<open>left$\<close>, \<open>^left\<close>, \<open>^l_\<close>, \<open>_l$\<close> (and
  those for the right) are tests of the end and the start of the lower-cased name.
\<close>

definition determine_bone_side :: "string \<Rightarrow> BoneCategory \<Rightarrow> BoneSide" where
  "determine_bone_side bone_name cat =
    (let normalized = toLowerCase bone_name in
     if cat = Torso then Center
     else if endsWith normalized ''left'' \<or> startsWith normalized ''left''
             \<or> startsWith normalized ''l_'' \<or> endsWith normalized ''_l''
     then Left
     else if endsWith normalized ''right'' \<or> startsWith normalized ''right''
             \<or> startsWith normalized ''r_'' \<or> endsWith normalized ''_r''
     then Right
     else if str_includes normalized ''left'' then Left
     else if str_includes normalized ''right'' then Right
     else if normalized \<noteq> [] \<and> lower_char (last normalized) = CHR ''l'' then Left
     else if normalized \<noteq> [] \<and> lower_char (last normalized) = CHR ''r'' then Right
     else UnknownSide)"

text \<open>\<open>normalize_bone_name\<close>: the replacements in the order of the source.\<close>

definition normalize_bone_name :: "string \<Rightarrow> BoneCategory \<Rightarrow> BoneSide \<Rightarrow> string" where
  "normalize_bone_name bone_name cat sd =
    (let normalized = toLowerCase bone_name;
         normalized = map (\<lambda>c. if c = CHR ''-'' \<or> c = CHR ''.'' \<or> is_space c then CHR ''_'' else c)
                          normalized;
         normalized =
           (case match_alternatives
                   [''mixamorig'', ''mixamorig_'', ''rig_'', ''bone_'', ''jnt_'', ''joint_'', ''def_'']
                   normalized of
              None \<Rightarrow> normalized
            | Some n \<Rightarrow> drop n normalized);
         normalized =
           (if sd \<noteq> Center \<and> sd \<noteq> UnknownSide then
              (let normalized = replace_all (m_words [''left'', ''right'', ''l'', ''r''] []) normalized;
                   normalized = replace_all m_lr_prefix normalized;
                   normalized = replace_all m_lr_suffix normalized;
                   normalized = replace_all m_dot_lr_suffix normalized;
                   normalized = replace_all m_underscores normalized;
                   normalized = replace_all m_edge_underscore normalized
               in normalized)
            else normalized);
         normalized = replace_all m_numeric_suffix normalized;
         normalized =
           (if cat = Hands then normalized
            else if cat = Legs then
              (let normalized = replace_all (m_words [''upperleg'', ''upleg'', ''thigh''] ''thigh'') normalized;
                   normalized = replace_all (m_words [''lowerleg'', ''lowleg'', ''shin'', ''calf''] ''calf'') normalized
               in normalized)
            else if cat = Arms then
              (let normalized = replace_all (m_words [''upperarm'', ''uparm''] ''upperarm'') normalized;
                   normalized = replace_all (m_words [''lowerarm'', ''lowarm'', ''forearm''] ''forearm'') normalized
               in normalized)
            else normalized);
         normalized = replace_all m_underscores normalized;
         normalized = replace_all m_edge_underscore normalized
     in normalized)"

definition create_bone_metadata :: "string \<Rightarrow> string option \<Rightarrow> BoneMetadata" where
  "create_bone_metadata bone_name parent =
    (let cat = categorize_bone bone_name;
         sd = determine_bone_side bone_name cat
     in \<lparr> meta_name = bone_name, normalized_name = normalize_bone_name bone_name cat sd,
          side = sd, category = cat, parent_name = parent \<rparr>)"

section \<open>Vocabulary of the properties\<close>

text \<open>A real number is a double when rounding leaves it as it is.\<close>

definition is_f64 :: "real \<Rightarrow> bool" where
  "is_f64 r \<longleftrightarrow> f64_round r = Finite r"

text \<open>
  Every arithmetic step of \<open>invert\<close> on the quaternion \<open>(a0, a1, a2, a3)\<close> is exact:
  the four squares, the three sums, the reciprocal of the last sum and the four products
  are doubles, so that no operation rounds. (When the sum is zero the code computes
  neither reciprocal nor products, and the five conditions on them hold by \<open>1 / 0 = 0\<close>.)
\<close>

definition invert_exact :: "real \<Rightarrow> real \<Rightarrow> real \<Rightarrow> real \<Rightarrow> bool" where
  "invert_exact a0 a1 a2 a3 \<longleftrightarrow>
     is_f64 (a0 * a0) \<and> is_f64 (a1 * a1) \<and> is_f64 (a2 * a2) \<and> is_f64 (a3 * a3)
   \<and> is_f64 (a0 * a0 + a1 * a1)
   \<and> is_f64 (a0 * a0 + a1 * a1 + a2 * a2)
   \<and> is_f64 (a0 * a0 + a1 * a1 + a2 * a2 + a3 * a3)
   \<and> is_f64 (1 / (a0 * a0 + a1 * a1 + a2 * a2 + a3 * a3))
   \<and> is_f64 (- a0 * (1 / (a0 * a0 + a1 * a1 + a2 * a2 + a3 * a3)))
   \<and> is_f64 (- a1 * (1 / (a0 * a0 + a1 * a1 + a2 * a2 + a3 * a3)))
   \<and> is_f64 (- a2 * (1 / (a0 * a0 + a1 * a1 + a2 * a2 + a3 * a3)))
   \<and> is_f64 (a3 * (1 / (a0 * a0 + a1 * a1 + a2 * a2 + a3 * a3)))"

text \<open>A rotation is a quaternion of length one; a uniform scale has three equal components.\<close>

definition unit_quat :: "Quat \<Rightarrow> bool" where
  "unit_quat q = ((q0 q)\<^sup>2 + (q1 q)\<^sup>2 + (q2 q)\<^sup>2 + (q3 q)\<^sup>2 = 1)"

definition uniform_scale :: "Vec3 \<Rightarrow> bool" where
  "uniform_scale s = (v0 s = v1 s \<and> v1 s = v2 s)"

definition rigid :: "Transform \<Rightarrow> bool" where
  "rigid t = (unit_quat (rot t) \<and> uniform_scale (scl t))"

text \<open>
  The joints are listed parents first: every parent index is \<open>-1\<close> or the position of
  an earlier joint (as \<open>fromSkeleton\<close> builds them, resolving a parent by the names seen
  so far).
\<close>

definition parents_first :: "Joint list \<Rightarrow> bool" where
  "parents_first js =
    list_all (\<lambda>i. pindex (js ! i) = - 1 \<or> (0 \<le> pindex (js ! i) \<and> pindex (js ! i) < int i))
      [0..<length js]"

text \<open>Every joint that is the parent of a joint has a rigid local transform.\<close>

definition rigid_parents :: "Joint list \<Rightarrow> bool" where
  "rigid_parents js =
    list_all (\<lambda>j. pindex j = - 1 \<or> rigid (local (js ! nat (pindex j)))) js"

text \<open>
  The index of the first joint of a named chain of the target rig, when the rig, the chain
  and its first item exist.
\<close>

definition chain_first :: "Retargeter \<Rightarrow> string \<Rightarrow> int option" where
  "chain_first rt chain_name =
    (case tarRig rt of
       None \<Rightarrow> None
     | Some rig \<Rightarrow>
        (case map_of (chains rig) chain_name of
           None \<Rightarrow> None
         | Some [] \<Rightarrow> None
         | Some (itm # _) \<Rightarrow> Some (idx itm)))"

text \<open>
  Pose \<open>p'\<close> differs from pose \<open>p\<close> at most in local rotations (every joint of \<open>p'\<close>
  is the joint of \<open>p\<close> with, possibly, another local rotation: name, indices, children,
  world transform, local position and local scale are those of \<open>p\<close>), and every joint
  other than the one at index \<open>first\<close> is unchanged altogether.
\<close>

definition only_rot_changed :: "int option \<Rightarrow> Pose \<Rightarrow> Pose \<Rightarrow> bool" where
  "only_rot_changed first p p' =
    (srcPose p' = srcPose p \<and> nameIdx p' = nameIdx p
     \<and> rootOffset p' = rootOffset p \<and> poseOffset p' = poseOffset p
     \<and> length (joints p') = length (joints p)
     \<and> list_all
         (\<lambda>k. joints p' ! k =
                (joints p ! k)\<lparr> local := (local (joints p ! k))\<lparr> rot := rot (local (joints p' ! k)) \<rparr> \<rparr>
              \<and> (first = Some (int k) \<or> joints p' ! k = joints p ! k))
         [0..<length (joints p)])"

text \<open>The same for the pose of a retargeter; the rig is unchanged, a missing pose stays missing.\<close>

definition frame_of_apply :: "int option \<Rightarrow> Retargeter \<Rightarrow> Retargeter \<Rightarrow> bool" where
  "frame_of_apply first rt rt' =
    (tarRig rt' = tarRig rt
     \<and> (case pose rt of
          None \<Rightarrow> pose rt' = None
        | Some p \<Rightarrow> (case pose rt' of None \<Rightarrow> False | Some p' \<Rightarrow> only_rot_changed first p p')))"

section \<open>Example skeletons\<close>

text \<open>
  Concrete inputs for the evaluations below: a joint with the given name, index, parent
  index, children, local and world transform, and two poses of four joints on three levels
  (hips; spine and leg under hips; head under spine). In the first pose the hips are
  scaled non-uniformly; in the second every joint with a child has a rigid local transform.
\<close>

abbreviation ex_joint :: "string \<Rightarrow> int \<Rightarrow> int \<Rightarrow> int list \<Rightarrow> Transform \<Rightarrow> Transform \<Rightarrow> Joint" where
  "ex_joint nm i par cs l w \<equiv>
     \<lparr> name = nm, index = i, pindex = par, isRoot = False, children = cs,
       local = l, world = w, jidx = 1 \<rparr>"

abbreviation ex_pose :: "Transform \<Rightarrow> Transform \<Rightarrow> Transform \<Rightarrow> Transform \<Rightarrow> Pose" where
  "ex_pose w0 w1 w2 w3 \<equiv>
     \<lparr> srcPose = None,
       nameIdx = [(''hips'', 0), (''spine'', 1), (''head'', 2), (''leg'', 3)],
       joints =
         [ex_joint ''hips'' 0 (- 1) [1, 3]
            \<lparr> rot = Quat 0 0 0 1, pos = Vec3 0 0 0, scl = Vec3 2 1 1 \<rparr> w0,
          ex_joint ''spine'' 1 0 [2]
            \<lparr> rot = Quat (1/2) (1/2) (1/2) (1/2), pos = Vec3 0 0 0, scl = Vec3 1 1 1 \<rparr> w1,
          ex_joint ''head'' 2 1 []
            \<lparr> rot = Quat 0 0 0 1, pos = Vec3 1 0 0, scl = Vec3 1 1 1 \<rparr> w2,
          ex_joint ''leg'' 3 0 []
            \<lparr> rot = Quat 0 0 0 1, pos = Vec3 0 1 0, scl = Vec3 1 1 1 \<rparr> w3],
       rootOffset = Transform_new, poseOffset = Transform_new \<rparr>"

abbreviation ex_rigid_pose :: "Transform \<Rightarrow> Transform \<Rightarrow> Transform \<Rightarrow> Transform \<Rightarrow> Pose" where
  "ex_rigid_pose w0 w1 w2 w3 \<equiv>
     \<lparr> srcPose = None,
       nameIdx = [(''hips'', 0), (''spine'', 1), (''head'', 2), (''leg'', 3)],
       joints =
         [ex_joint ''hips'' 0 (- 1) [1, 3]
            \<lparr> rot = Quat (1/2) (1/2) (1/2) (1/2), pos = Vec3 0 1 0, scl = Vec3 1 1 1 \<rparr> w0,
          ex_joint ''spine'' 1 0 [2]
            \<lparr> rot = Quat 0 1 0 0, pos = Vec3 0 1 0, scl = Vec3 3 3 3 \<rparr> w1,
          ex_joint ''head'' 2 1 []
            \<lparr> rot = Quat 0 0 0 1, pos = Vec3 1 2 3, scl = Vec3 1 2 3 \<rparr> w2,
          ex_joint ''leg'' 3 0 []
            \<lparr> rot = Quat 0 0 0 1, pos = Vec3 1 0 0, scl = Vec3 1 1 1 \<rparr> w3],
       rootOffset = \<lparr> rot = Quat 0 0 1 0, pos = Vec3 1 0 0, scl = Vec3 2 2 2 \<rparr>,
       poseOffset = Transform_new \<rparr>"

text \<open>
  A pose of two joints (a root and its tip) with the given source reference and local
  transforms; the local transforms of a rest pose and of a bent pose; a store of two poses,
  the rest pose at reference 0 and, at reference 1, a bent pose whose source is the rest
  pose. Last, a rig over the four-joint skeleton with the chains \<open>spine\<close> (spine, head)
  and \<open>leg\<close> (leg).
\<close>

abbreviation ex_small_pose :: "nat option \<Rightarrow> Transform \<Rightarrow> Transform \<Rightarrow> Pose" where
  "ex_small_pose src l0 l1 \<equiv>
     \<lparr> srcPose = src,
       nameIdx = [(''root'', 0), (''tip'', 1)],
       joints = [ex_joint ''root'' 0 (- 1) [1] l0 Transform_new,
                 ex_joint ''tip'' 1 0 [] l1 Transform_new],
       rootOffset = Transform_new, poseOffset = Transform_new \<rparr>"

abbreviation ex_rest_root :: Transform where
  "ex_rest_root \<equiv> \<lparr> rot = Quat 0 0 0 1, pos = Vec3 0 1 0, scl = Vec3 1 1 1 \<rparr>"

abbreviation ex_rest_tip :: Transform where
  "ex_rest_tip \<equiv> \<lparr> rot = Quat 0 1 0 0, pos = Vec3 1 0 0, scl = Vec3 1 1 1 \<rparr>"

abbreviation ex_bent_root :: Transform where
  "ex_bent_root \<equiv> \<lparr> rot = Quat 1 0 0 0, pos = Vec3 5 5 5, scl = Vec3 2 2 2 \<rparr>"

abbreviation ex_bent_tip :: Transform where
  "ex_bent_tip \<equiv> \<lparr> rot = Quat 0 0 1 0, pos = Vec3 7 7 7, scl = Vec3 3 3 3 \<rparr>"

abbreviation ex_store :: store where
  "ex_store \<equiv> [ex_small_pose None ex_rest_root ex_rest_tip,
                ex_small_pose (Some 0) ex_bent_root ex_bent_tip]"

text \<open>
  A pose with the root joint alone, and a store in which the source of the bent pose, at
  reference 0, is that shorter pose.
\<close>

abbreviation ex_single_pose :: Pose where
  "ex_single_pose \<equiv>
     \<lparr> srcPose = None,
       nameIdx = [(''root'', 0)],
       joints = [ex_joint ''root'' 0 (- 1) [] ex_rest_root Transform_new],
       rootOffset = Transform_new, poseOffset = Transform_new \<rparr>"

abbreviation ex_short_store :: store where
  "ex_short_store \<equiv> [ex_single_pose, ex_small_pose (Some 0) ex_bent_root ex_bent_tip]"

abbreviation ex_rig :: Rig where
  "ex_rig \<equiv>
     \<lparr> chains =
         [(''spine'', [\<lparr> idx = 1, pidx = 0, twist = Some (Vec3 0 1 0) \<rparr>,
                       \<lparr> idx = 2, pidx = 1, twist = None \<rparr>]),
          (''leg'', [\<lparr> idx = 3, pidx = 0, twist = Some (Vec3 0 1 0) \<rparr>])] \<rparr>"

text \<open>A retargeter with that rig and the first four-joint pose, no world transform cached yet.\<close>

abbreviation ex_retargeter :: Retargeter where
  "ex_retargeter \<equiv>
     \<lparr> tarRig = Some ex_rig,
       pose = Some (ex_pose Transform_new Transform_new Transform_new Transform_new) \<rparr>"

section \<open>Properties of the quaternion and transform algebra\<close>

subsection \<open>Rotating by a product, rotating a scaled vector\<close>

lemma qTransform_qMul:
  assumes "unit_quat a" "unit_quat b"
  shows "qTransform (qMul a b) v = qTransform a (qTransform b v)"
proof (cases a; cases b; cases v)
  fix a0 a1 a2 a3 b0 b1 b2 b3 x y z
  assume eq: "a = Quat a0 a1 a2 a3" "b = Quat b0 b1 b2 b3" "v = Vec3 x y z"
  from assms eq have ua: "a0\<^sup>2 + a1\<^sup>2 + a2\<^sup>2 + a3\<^sup>2 = 1"
    and ub: "b0\<^sup>2 + b1\<^sup>2 + b2\<^sup>2 + b3\<^sup>2 = 1"
    by (simp_all add: unit_quat_def)
  show ?thesis
    unfolding eq qTransform_def qMul_def Let_def Vec3.sel Quat.sel Vec3.inject
    using ua ub by algebra
qed

lemma qMul_assoc: "qMul (qMul a b) c = qMul a (qMul b c)"
  by (cases a; cases b; cases c) (simp add: qMul_def algebra_simps)

lemma qMul_unit:
  assumes "unit_quat a" "unit_quat b"
  shows "unit_quat (qMul a b)"
proof (cases a; cases b)
  fix a0 a1 a2 a3 b0 b1 b2 b3
  assume eq: "a = Quat a0 a1 a2 a3" "b = Quat b0 b1 b2 b3"
  from assms eq have ua: "a0\<^sup>2 + a1\<^sup>2 + a2\<^sup>2 + a3\<^sup>2 = 1"
    and ub: "b0\<^sup>2 + b1\<^sup>2 + b2\<^sup>2 + b3\<^sup>2 = 1"
    by (simp_all add: unit_quat_def)
  show ?thesis
    unfolding eq qMul_def Let_def unit_quat_def Quat.sel
    using ua ub by algebra
qed

lemma qTransform_scaled:
  "qTransform q (Vec3 (s * x) (s * y) (s * z)) =
     Vec3 (s * v0 (qTransform q (Vec3 x y z))) (s * v1 (qTransform q (Vec3 x y z)))
          (s * v2 (qTransform q (Vec3 x y z)))"
  by (simp add: qTransform_def Let_def algebra_simps)

lemma qTransform_add:
  "qTransform q (Vec3 (x + x') (y + y') (z + z')) =
     Vec3 (v0 (qTransform q (Vec3 x y z)) + v0 (qTransform q (Vec3 x' y' z')))
          (v1 (qTransform q (Vec3 x y z)) + v1 (qTransform q (Vec3 x' y' z')))
          (v2 (qTransform q (Vec3 x y z)) + v2 (qTransform q (Vec3 x' y' z')))"
  by (simp add: qTransform_def Let_def algebra_simps)

lemma qTransform_conj_cancel:
  assumes "a\<^sup>2 + b\<^sup>2 + c\<^sup>2 + d\<^sup>2 = 1"
  shows "qTransform (Quat a b c d) (qTransform (Quat (- a) (- b) (- c) d) v) = v"
proof (cases v)
  case (Vec3 x y z)
  show ?thesis
    unfolding Vec3 qTransform_def Let_def Vec3.sel Quat.sel Vec3.inject
    using assms by algebra
qed

text \<open>A rotation by half a turn: \<open>sin (pi / 2) = 1\<close> and \<open>cos (pi / 2) = 0\<close>.\<close>

lemma Quat_fromAxisAngle_pi:
  "Quat_fromAxisAngle axis pi = Quat (v0 axis) (v1 axis) (v2 axis) 0"
  by (simp add: Quat_fromAxisAngle_def Let_def)

subsection \<open>The three compositions are one; composition along a rigid chain\<close>

lemma Transform_pmul_fromMul: "Transform_pmul this tran = Transform_fromMul tran this"
  by (simp add: Transform_pmul_def Transform_fromMul_def Let_def mult.commute add.commute)

lemma Transform_mul_fromMul: "Transform_mul this tran = Transform_fromMul this tran"
  by (simp add: Transform_mul_def Transform_fromMul_def Let_def)

lemma fromMul_unit:
  "unit_quat (rot a) \<Longrightarrow> unit_quat (rot b) \<Longrightarrow> unit_quat (rot (Transform_fromMul a b))"
  by (simp add: Transform_fromMul_def Let_def qMul_unit)

lemma fromMul_assoc_rigid:
  assumes "rigid A" "unit_quat (rot B)"
  shows "Transform_fromMul (Transform_fromMul A B) C = Transform_fromMul A (Transform_fromMul B C)"
proof -
  have ua: "unit_quat (rot A)" using assms(1) by (simp add: rigid_def)
  obtain s where s: "scl A = Vec3 s s s"
    using assms(1) by (cases "scl A") (simp add: rigid_def uniform_scale_def)
  have r: "rot (Transform_fromMul (Transform_fromMul A B) C)
         = rot (Transform_fromMul A (Transform_fromMul B C))"
    by (simp add: Transform_fromMul_def Let_def qMul_assoc)
  have sc: "scl (Transform_fromMul (Transform_fromMul A B) C)
          = scl (Transform_fromMul A (Transform_fromMul B C))"
    by (simp add: Transform_fromMul_def Let_def algebra_simps)
  have p: "pos (Transform_fromMul (Transform_fromMul A B) C)
         = pos (Transform_fromMul A (Transform_fromMul B C))"
    by (simp add: Transform_fromMul_def Let_def s qTransform_qMul [OF ua assms(2)]
          qTransform_scaled qTransform_add algebra_simps)
  show ?thesis using r sc p by (simp add: Transform.equality)
qed

subsection \<open>Associativity of the composition\<close>

text \<open>
  C2, as the claim states it, fails: with a non-uniform scale in \<open>A\<close> and a rotation by
  a third of a turn in \<open>B\<close>, the two groupings put \<open>C\<close> at positions one unit apart.
  All numbers are exact in binary floating point, so the tolerance does not help.
\<close>

theorem fromMul_assoc_counterexample:
  "pos (Transform_fromMul
          (Transform_fromMul \<lparr> rot = Quat 0 0 0 1, pos = Vec3 0 0 0, scl = Vec3 2 1 1 \<rparr>
                             \<lparr> rot = Quat (1/2) (1/2) (1/2) (1/2), pos = Vec3 0 0 0, scl = Vec3 1 1 1 \<rparr>)
          \<lparr> rot = Quat 0 0 0 1, pos = Vec3 1 0 0, scl = Vec3 1 1 1 \<rparr>) = Vec3 0 2 0
   \<and> pos (Transform_fromMul
          \<lparr> rot = Quat 0 0 0 1, pos = Vec3 0 0 0, scl = Vec3 2 1 1 \<rparr>
          (Transform_fromMul \<lparr> rot = Quat (1/2) (1/2) (1/2) (1/2), pos = Vec3 0 0 0, scl = Vec3 1 1 1 \<rparr>
                             \<lparr> rot = Quat 0 0 0 1, pos = Vec3 1 0 0, scl = Vec3 1 1 1 \<rparr>)) = Vec3 0 1 0
   \<and> \<bar>(2::real) - 1\<bar> > 1 / 100000"
  by (simp add: Transform_fromMul_def qTransform_def qMul_def Let_def)

text \<open>
  C2, amended: in exact arithmetic, \<open>fromMul (fromMul A B) C = fromMul A (fromMul B C)\<close>
  in rotation, position and scale whenever the rotations of \<open>A\<close> and \<open>B\<close> are unit
  quaternions and the scale of \<open>A\<close> is uniform (\<open>B\<close> and \<open>C\<close> may be scaled
  non-uniformly, \<open>C\<close> is arbitrary).
\<close>

theorem fromMul_assoc:
  assumes "unit_quat (rot A)" "unit_quat (rot B)" "uniform_scale (scl A)"
  shows "Transform_fromMul (Transform_fromMul A B) C = Transform_fromMul A (Transform_fromMul B C)"
  using assms by (simp add: fromMul_assoc_rigid rigid_def)

theorem fromMul_assoc_witness:
  "unit_quat (Quat (1/2) (1/2) (1/2) (1/2)) \<and> unit_quat (Quat 0 0 1 0) \<and> uniform_scale (Vec3 2 2 2)
   \<and> Transform_fromMul
        (Transform_fromMul \<lparr> rot = Quat (1/2) (1/2) (1/2) (1/2), pos = Vec3 1 2 3, scl = Vec3 2 2 2 \<rparr>
                           \<lparr> rot = Quat 0 0 1 0, pos = Vec3 1 0 0, scl = Vec3 1 2 3 \<rparr>)
        \<lparr> rot = Quat 0 1 0 0, pos = Vec3 1 1 1, scl = Vec3 3 1 2 \<rparr>
     = \<lparr> rot = Quat (- 1/2) (- 1/2) (1/2) (1/2), pos = Vec3 7 2 (- 1), scl = Vec3 6 4 12 \<rparr>
   \<and> Transform_fromMul
        \<lparr> rot = Quat (1/2) (1/2) (1/2) (1/2), pos = Vec3 1 2 3, scl = Vec3 2 2 2 \<rparr>
        (Transform_fromMul \<lparr> rot = Quat 0 0 1 0, pos = Vec3 1 0 0, scl = Vec3 1 2 3 \<rparr>
                           \<lparr> rot = Quat 0 1 0 0, pos = Vec3 1 1 1, scl = Vec3 3 1 2 \<rparr>)
     = \<lparr> rot = Quat (- 1/2) (- 1/2) (1/2) (1/2), pos = Vec3 7 2 (- 1), scl = Vec3 6 4 12 \<rparr>"
proof -
  have h1: "unit_quat (rot \<lparr> rot = Quat (1/2) (1/2) (1/2) (1/2), pos = Vec3 1 2 3, scl = Vec3 2 2 2 \<rparr>)"
    by (simp add: unit_quat_def power2_eq_square)
  have h2: "unit_quat (rot \<lparr> rot = Quat 0 0 1 0, pos = Vec3 1 0 0, scl = Vec3 1 2 3 \<rparr>)"
    by (simp add: unit_quat_def)
  have h3: "uniform_scale (scl \<lparr> rot = Quat (1/2) (1/2) (1/2) (1/2), pos = Vec3 1 2 3, scl = Vec3 2 2 2 \<rparr>)"
    by (simp add: uniform_scale_def)
  have r: "Transform_fromMul
        \<lparr> rot = Quat (1/2) (1/2) (1/2) (1/2), pos = Vec3 1 2 3, scl = Vec3 2 2 2 \<rparr>
        (Transform_fromMul \<lparr> rot = Quat 0 0 1 0, pos = Vec3 1 0 0, scl = Vec3 1 2 3 \<rparr>
                           \<lparr> rot = Quat 0 1 0 0, pos = Vec3 1 1 1, scl = Vec3 3 1 2 \<rparr>)
     = \<lparr> rot = Quat (- 1/2) (- 1/2) (1/2) (1/2), pos = Vec3 7 2 (- 1), scl = Vec3 6 4 12 \<rparr>"
    by (simp add: Transform_fromMul_def qTransform_def qMul_def Let_def)
  show ?thesis
    using h1 h2 h3 r
      fromMul_assoc [OF h1 h2 h3, of "\<lparr> rot = Quat 0 1 0 0, pos = Vec3 1 1 1, scl = Vec3 3 1 2 \<rparr>"]
    by simp
qed

subsection \<open>A transform composed with its inverse\<close>

text \<open>
  C3, as the claim states it, fails: the transform below has no zero scale component, and
  composing it with its inverse leaves the position \<open>(1/2, 0, 0)\<close>, not zero. All
  numbers are exact in binary floating point.
\<close>

theorem fromMul_fromInvert_counterexample:
  "Transform_fromInvert \<lparr> rot = Quat (1/2) (1/2) (1/2) (1/2), pos = Vec3 1 0 0, scl = Vec3 2 1 1 \<rparr>
     = Some \<lparr> rot = Quat (- 1/2) (- 1/2) (- 1/2) (1/2), pos = Vec3 0 0 (- 1/2), scl = Vec3 (1/2) 1 1 \<rparr>
   \<and> Transform_fromMul
        \<lparr> rot = Quat (1/2) (1/2) (1/2) (1/2), pos = Vec3 1 0 0, scl = Vec3 2 1 1 \<rparr>
        \<lparr> rot = Quat (- 1/2) (- 1/2) (- 1/2) (1/2), pos = Vec3 0 0 (- 1/2), scl = Vec3 (1/2) 1 1 \<rparr>
     = \<lparr> rot = Quat 0 0 0 1, pos = Vec3 (1/2) 0 0, scl = Vec3 1 1 1 \<rparr>
   \<and> \<bar>(1/2::real) - 0\<bar> > 1 / 100000"
  by (simp add: Transform_fromInvert_def Transform_fromMul_def qInvert_def exact_div_def
        qTransform_def qMul_def Let_def)

text \<open>
  C3, amended: in exact arithmetic, for every transform \<open>T\<close> whose rotation is a unit
  quaternion and whose scale is uniform and non-zero, \<open>fromInvert T\<close> is defined and
  \<open>fromMul T (fromInvert T)\<close> is exactly the identity transform (rotation
  \<open>(0, 0, 0, 1)\<close>, position zero, scale one).
\<close>

theorem fromMul_fromInvert:
  assumes "unit_quat (rot T)" "uniform_scale (scl T)" "v0 (scl T) \<noteq> 0"
  shows "map_option (Transform_fromMul T) (Transform_fromInvert T) = Some Transform_new"
proof -
  obtain s where s: "scl T = Vec3 s s s" "s \<noteq> 0"
    using assms(2,3) by (cases "scl T") (simp add: uniform_scale_def)
  obtain a b c d where q: "rot T = Quat a b c d" by (cases "rot T")
  obtain x y z where p: "pos T = Vec3 x y z" by (cases "pos T")
  have u2: "a\<^sup>2 + b\<^sup>2 + c\<^sup>2 + d\<^sup>2 = 1"
    using assms(1) q by (simp add: unit_quat_def)
  have u: "a * a + b * b + c * c + d * d = 1"
    using u2 by (simp add: power2_eq_square)
  define qi where "qi = Quat (- a) (- b) (- c) d"
  define w where "w = qTransform qi (Vec3 (- x) (- y) (- z))"
  have e: "Vec3 (- x * (1 / s)) (- y * (1 / s)) (- z * (1 / s)) =
           Vec3 ((1 / s) * (- x)) ((1 / s) * (- y)) ((1 / s) * (- z))"
    by simp
  have ipos: "qTransform qi (Vec3 (- x * (1 / s)) (- y * (1 / s)) (- z * (1 / s))) =
              Vec3 ((1 / s) * v0 w) ((1 / s) * v1 w) ((1 / s) * v2 w)"
    unfolding e w_def by (rule qTransform_scaled)
  have inv: "Transform_fromInvert T =
      Some \<lparr> rot = qi, pos = Vec3 ((1 / s) * v0 w) ((1 / s) * v1 w) ((1 / s) * v2 w),
             scl = Vec3 (1 / s) (1 / s) (1 / s) \<rparr>"
    unfolding ipos [symmetric]
    by (simp add: Transform_fromInvert_def qInvert_def exact_div_def Let_def q p s u qi_def)
  have rt: "qMul (Quat a b c d) qi = Quat 0 0 0 1"
    using u by (simp add: qMul_def qi_def algebra_simps)
  have sw: "Vec3 (s * (1 / s * v0 w)) (s * (1 / s * v1 w)) (s * (1 / s * v2 w)) = w"
    using s(2) by (cases w) simp
  have bk: "qTransform (Quat a b c d) w = Vec3 (- x) (- y) (- z)"
    unfolding w_def qi_def by (rule qTransform_conj_cancel [OF u2])
  have "Transform_fromMul T
          \<lparr> rot = qi, pos = Vec3 ((1 / s) * v0 w) ((1 / s) * v1 w) ((1 / s) * v2 w),
            scl = Vec3 (1 / s) (1 / s) (1 / s) \<rparr> = Transform_new"
    unfolding Transform_fromMul_def Let_def Transform.simps q p s(1) Vec3.sel rt sw bk
    using s(2) by (simp add: Transform_new_def)
  then show ?thesis by (simp add: inv)
qed

theorem fromMul_fromInvert_witness:
  "unit_quat (Quat (1/2) (1/2) (1/2) (1/2)) \<and> uniform_scale (Vec3 2 2 2) \<and> (2::real) \<noteq> 0
   \<and> map_option
        (Transform_fromMul \<lparr> rot = Quat (1/2) (1/2) (1/2) (1/2), pos = Vec3 1 2 3, scl = Vec3 2 2 2 \<rparr>)
        (Transform_fromInvert \<lparr> rot = Quat (1/2) (1/2) (1/2) (1/2), pos = Vec3 1 2 3, scl = Vec3 2 2 2 \<rparr>)
     = Some \<lparr> rot = Quat 0 0 0 1, pos = Vec3 0 0 0, scl = Vec3 1 1 1 \<rparr>"
proof -
  have h1: "unit_quat (rot \<lparr> rot = Quat (1/2) (1/2) (1/2) (1/2), pos = Vec3 1 2 3, scl = Vec3 2 2 2 \<rparr>)"
    by (simp add: unit_quat_def power2_eq_square)
  have h2: "uniform_scale (scl \<lparr> rot = Quat (1/2) (1/2) (1/2) (1/2), pos = Vec3 1 2 3, scl = Vec3 2 2 2 \<rparr>)"
    by (simp add: uniform_scale_def)
  have h3: "v0 (scl \<lparr> rot = Quat (1/2) (1/2) (1/2) (1/2), pos = Vec3 1 2 3, scl = Vec3 2 2 2 \<rparr>) \<noteq> 0"
    by simp
  show ?thesis
    using h1 h2 h3 fromMul_fromInvert [OF h1 h2 h3]
    by (simp add: Transform_new_def)
qed

section \<open>Inversion of a quaternion, on doubles\<close>

subsection \<open>Rounding\<close>

text \<open>
  Rounding to the nearest integer is exact on integers, errs by at most one half and keeps
  the sign. Hence \<open>f64_round\<close> leaves every double as it is (the numbers \<open>m / 2 ^ e\<close>
  with \<open>e \<le> 1074\<close> and \<open>m * 2 ^ e\<close> with \<open>e \<le> 971\<close>, for \<open>\<bar>m\<bar> < 2 ^ 53\<close>), sends a
  power of two from \<open>2 ^ 1024\<close> on to the infinity, and on a magnitude up to \<open>2 ^ 1023\<close>
  gives a finite double whose error is at most the relative \<open>2 ^ - 53\<close> plus the absolute
  \<open>2 ^ - 1075\<close>.
\<close>

lemma round_half_even_int: "round_half_even (of_int i) = i"
  by (simp add: round_half_even_def)

lemma round_half_even_err: "\<bar>of_int (round_half_even x) - x\<bar> \<le> 1 / 2"
  unfolding round_half_even_def Let_def by (auto; linarith)

lemma round_half_even_nonneg: "0 \<le> x \<Longrightarrow> 0 \<le> round_half_even x"
  unfolding round_half_even_def Let_def by (auto; linarith)

lemma f64_round_0: "f64_round 0 = Finite 0"
  by (simp add: f64_round_def round_half_even_def)

lemma sgn_abs_scale: "p \<noteq> 0 \<Longrightarrow> sgn (r::real) * (\<bar>r\<bar> * p) / p = r"
  by (simp add: mult.assoc [symmetric] mult_sgn_abs)

lemma f64_round_dyadic:
  assumes "\<bar>m\<bar> < 2 ^ 53" "e \<le> 1074"
  shows "f64_round (of_int m / 2 ^ e) = Finite (of_int m / 2 ^ e)"
proof (cases "m = 0")
  case True
  then show ?thesis by (simp add: f64_round_0)
next
  case False
  define a where "a = \<bar>m\<bar>"
  define c where "c = 1074 - e"
  have a: "0 < a" "a < 2 ^ 53" using False assms(1) by (simp_all add: a_def)
  have ce: "c + e = 1074" using assms(2) by (simp add: c_def)
  have p: "(2::real) ^ 1074 = 2 ^ c * 2 ^ e"
    using ce by (metis power_add)
  have n: "\<bar>real_of_int m / 2 ^ e\<bar> * 2 ^ 1074 = real_of_int (a * 2 ^ c)"
    unfolding p by (simp add: a_def)
  have bl: "bitlen (a * 2 ^ c) = bitlen a + int c" using a(1) by simp
  have b53: "bitlen a \<le> 53" using a(2) by (simp add: bitlen_le_iff_power)
  define sh where "sh = nat (bitlen a + int c - 53)"
  have shc: "sh \<le> c" using b53 by (simp add: sh_def)
  have q: "(2::int) ^ c = 2 ^ (c - sh) * 2 ^ sh"
    using shc by (metis le_add_diff_inverse2 power_add)
  have qr: "(2::real) ^ c = 2 ^ (c - sh) * 2 ^ sh"
    using shc by (metis le_add_diff_inverse2 power_add)
  have dv: "real_of_int (a * 2 ^ c) / 2 ^ sh = of_int (a * 2 ^ (c - sh))"
    by (simp add: qr)
  have m: "round_half_even (real_of_int (a * 2 ^ c) / 2 ^ sh) = a * 2 ^ (c - sh)"
    unfolding dv by (rule round_half_even_int)
  have v: "real_of_int (a * 2 ^ (c - sh)) * 2 ^ sh = of_int (a * 2 ^ c)"
    by (simp add: qr)
  have lt: "a * 2 ^ c < 2 ^ 53 * 2 ^ 1074"
    using a ce by (intro mult_less_le_imp_less) (simp_all add: power_increasing del: power_numeral)
  have small: "real_of_int (a * 2 ^ c) < 2 ^ 2098"
  proof -
    have "(2::int) ^ 53 * 2 ^ 1074 < 2 ^ 2098" by simp
    with lt have "a * 2 ^ c < (2::int) ^ 2098" by (rule less_trans)
    then have "real_of_int (a * 2 ^ c) < real_of_int (2 ^ 2098)" by (simp only: of_int_less_iff)
    then show ?thesis by (simp del: power_numeral)
  qed
  have s: "sgn (real_of_int m / 2 ^ e) * real_of_int (a * 2 ^ c) / 2 ^ 1074 = of_int m / 2 ^ e"
    unfolding n [symmetric] by (rule sgn_abs_scale) simp
  show ?thesis
    unfolding f64_round_def Let_def n floor_of_int bl sh_def [symmetric] m v
    using small s by (simp del: power_numeral)
qed


lemma f64_round_scaled:
  assumes "\<bar>m\<bar> < 2 ^ 53" "e \<le> 971"
  shows "f64_round (of_int m * 2 ^ e) = Finite (of_int m * 2 ^ e)"
proof (cases "m = 0")
  case True
  then show ?thesis by (simp add: f64_round_0)
next
  case False
  define a where "a = \<bar>m\<bar>"
  define c where "c = e + 1074"
  have a: "0 < a" "a < 2 ^ 53" using False assms(1) by (simp_all add: a_def)
  have n: "\<bar>real_of_int m * 2 ^ e\<bar> * 2 ^ 1074 = real_of_int (a * 2 ^ c)"
    by (simp add: a_def c_def power_add abs_mult del: power_numeral)
  have bl: "bitlen (a * 2 ^ c) = bitlen a + int c" using a(1) by simp
  have b53: "bitlen a \<le> 53" using a(2) by (simp add: bitlen_le_iff_power)
  define sh where "sh = nat (bitlen a + int c - 53)"
  have shc: "sh \<le> c" using b53 by (simp add: sh_def)
  have qr: "(2::real) ^ c = 2 ^ (c - sh) * 2 ^ sh"
    using shc by (metis le_add_diff_inverse2 power_add)
  have dv: "real_of_int (a * 2 ^ c) / 2 ^ sh = of_int (a * 2 ^ (c - sh))"
    by (simp add: qr)
  have m: "round_half_even (real_of_int (a * 2 ^ c) / 2 ^ sh) = a * 2 ^ (c - sh)"
    unfolding dv by (rule round_half_even_int)
  have v: "real_of_int (a * 2 ^ (c - sh)) * 2 ^ sh = of_int (a * 2 ^ c)"
    by (simp add: qr)
  have "c \<le> 2045" using assms(2) by (simp add: c_def)
  then have "(2::int) ^ c \<le> 2 ^ 2045" by (intro power_increasing) simp_all
  then have lt: "a * 2 ^ c < 2 ^ 53 * 2 ^ 2045"
    using a by (intro mult_less_le_imp_less) simp_all
  have small: "real_of_int (a * 2 ^ c) < 2 ^ 2098"
  proof -
    have "(2::int) ^ 53 * 2 ^ 2045 = 2 ^ 2098" by simp
    with lt have "a * 2 ^ c < (2::int) ^ 2098" by simp
    then have "real_of_int (a * 2 ^ c) < real_of_int (2 ^ 2098)" by (simp only: of_int_less_iff)
    then show ?thesis by (simp del: power_numeral)
  qed
  have s: "sgn (real_of_int m * 2 ^ e) * real_of_int (a * 2 ^ c) / 2 ^ 1074 = of_int m * 2 ^ e"
    unfolding n [symmetric] by (rule sgn_abs_scale) simp
  show ?thesis
    unfolding f64_round_def Let_def n floor_of_int bl sh_def [symmetric] m v
    using small s by (simp del: power_numeral)
qed

lemma f64_round_pow2_overflow:
  assumes "1024 \<le> e"
  shows "f64_round (2 ^ e) = PosInf"
proof -
  have n: "\<bar>(2::real) ^ e\<bar> * 2 ^ 1074 = real_of_int (1 * 2 ^ (e + 1074))"
    by (simp add: power_add del: power_numeral)
  have bl: "bitlen (1 * 2 ^ (e + 1074)) = 1 + int (e + 1074)"
    by (subst bitlen_pow2) (simp_all add: bitlen_alt_def)
  have sh: "nat (1 + int (e + 1074) - 53) = e + 1022" by simp
  have x: "real_of_int (1 * 2 ^ (e + 1074)) / 2 ^ (e + 1022) = real_of_int (2 ^ 52)"
  proof -
    have "e + 1074 = 52 + (e + 1022)" by simp
    then have "(2::real) ^ (e + 1074) = 2 ^ 52 * 2 ^ (e + 1022)" by (metis power_add)
    then show ?thesis by (simp del: power_numeral)
  qed
  have m: "round_half_even (real_of_int (1 * 2 ^ (e + 1074)) / 2 ^ (e + 1022)) = 2 ^ 52"
    unfolding x by (rule round_half_even_int)
  have big: "(2::real) ^ 2098 \<le> real_of_int (2 ^ 52) * 2 ^ (e + 1022)"
  proof -
    have "(2::real) ^ 2098 \<le> 2 ^ (52 + (e + 1022))"
      using assms by (intro power_increasing) simp_all
    moreover have "real_of_int (2 ^ 52) * 2 ^ (e + 1022) = 2 ^ (52 + (e + 1022))"
      by (simp only: power_add of_int_power of_int_numeral)
    ultimately show ?thesis by (simp only:)
  qed
  show ?thesis
    unfolding f64_round_def Let_def n floor_of_int bl sh m
    using big by (simp del: power_numeral)
qed

lemma f64_round_error:
  assumes "\<bar>r\<bar> \<le> 2 ^ 1023"
  shows "\<exists>v. f64_round r = Finite v \<and> \<bar>v - r\<bar> \<le> \<bar>r\<bar> / 2 ^ 53 + 1 / 2 ^ 1075
             \<and> (0 \<le> r \<longrightarrow> 0 \<le> v)"
proof -
  define P :: real where "P = 2 ^ 1074"
  define n where "n = \<bar>r\<bar> * P"
  define sh where "sh = nat (bitlen \<lfloor>n\<rfloor> - 53)"
  define m where "m = round_half_even (n / 2 ^ sh)"
  define v where "v = real_of_int m * 2 ^ sh"
  have P: "0 < P" by (simp add: P_def)
  have n0: "0 \<le> n" using P by (simp add: n_def)
  have nle: "n \<le> 2 ^ 2097"
  proof -
    have "n \<le> 2 ^ 1023 * P" unfolding n_def using assms P by (intro mult_right_mono) simp_all
    also have "\<dots> = 2 ^ 2097" unfolding P_def by (simp add: power_add [symmetric] del: power_numeral)
    finally show ?thesis .
  qed
  have m0: "0 \<le> m" unfolding m_def using n0 by (intro round_half_even_nonneg) simp
  have "\<bar>real_of_int m - n / 2 ^ sh\<bar> \<le> 1 / 2" unfolding m_def by (rule round_half_even_err)
  then have "\<bar>real_of_int m - n / 2 ^ sh\<bar> * 2 ^ sh \<le> 1 / 2 * 2 ^ sh"
    by (intro mult_right_mono) simp_all
  moreover have "\<bar>real_of_int m - n / 2 ^ sh\<bar> * 2 ^ sh = \<bar>(real_of_int m - n / 2 ^ sh) * 2 ^ sh\<bar>"
    by (simp add: abs_mult)
  moreover have "(real_of_int m - n / 2 ^ sh) * 2 ^ sh = v - n"
    by (simp add: v_def left_diff_distrib)
  ultimately have d1: "\<bar>v - n\<bar> \<le> 2 ^ sh / 2" by simp
  have d2: "(2::real) ^ sh / 2 \<le> n / 2 ^ 53 + 1 / 2"
  proof (cases "sh = 0")
    case True
    then show ?thesis using n0 by simp
  next
    case False
    then have k: "53 < bitlen \<lfloor>n\<rfloor>" by (simp add: sh_def)
    then have z: "0 < \<lfloor>n\<rfloor>" using bitlen_eq_zero_iff [of "\<lfloor>n\<rfloor>"] by linarith
    have e: "nat (bitlen \<lfloor>n\<rfloor> - 1) = sh + 52" using k by (simp add: sh_def)
    from bitlen_bounds [OF z] have "(2::int) ^ (sh + 52) \<le> \<lfloor>n\<rfloor>" by (simp add: e)
    then have "real_of_int (2 ^ (sh + 52)) \<le> real_of_int \<lfloor>n\<rfloor>" by (simp only: of_int_le_iff)
    also have "\<dots> \<le> n" by simp
    finally have "(2::real) ^ sh * 2 ^ 52 \<le> n" by (simp add: power_add del: power_numeral)
    then have "(2::real) ^ sh / 2 \<le> n / 2 ^ 53" by (simp add: field_simps)
    then show ?thesis by simp
  qed
  have d: "\<bar>v - n\<bar> \<le> n / 2 ^ 53 + 1 / 2" using d1 d2 by simp
  have vlt: "v < 2 ^ 2098"
  proof -
    have "v \<le> n + n / 2 ^ 53 + 1 / 2" using d by simp
    also have "\<dots> \<le> 2 ^ 2097 + 2 ^ 2097 / 2 ^ 53 + 1 / 2"
      using nle by (simp add: divide_right_mono add_mono del: power_numeral)
    also have "\<dots> < 2 ^ 2098" by simp
    finally show ?thesis .
  qed
  have v0: "0 \<le> v" using m0 by (simp add: v_def)
  have r: "f64_round r = Finite (sgn r * v / P)"
    unfolding f64_round_def Let_def P_def [symmetric] n_def [symmetric] sh_def [symmetric]
      m_def [symmetric] v_def [symmetric]
    using vlt by (simp del: power_numeral)
  have rr: "r = sgn r * n / P" using sgn_abs_scale [of P r] P by (simp add: n_def)
  have "\<bar>sgn r * v / P - r\<bar> = \<bar>sgn r * (v - n) / P\<bar>"
    by (subst (2) rr) (simp add: right_diff_distrib diff_divide_distrib)
  also have "\<dots> = \<bar>sgn r\<bar> * \<bar>v - n\<bar> / P" using P by (simp add: abs_mult)
  also have "\<dots> \<le> 1 * \<bar>v - n\<bar> / P"
    using P by (intro divide_right_mono mult_right_mono) (simp_all add: sgn_real_def)
  also have "\<dots> \<le> (n / 2 ^ 53 + 1 / 2) / P" using d P by (simp add: divide_right_mono)
  also have "\<dots> = \<bar>r\<bar> / 2 ^ 53 + 1 / 2 ^ 1075"
  proof -
    have "(2::real) ^ 1075 = 2 * P" by (simp add: P_def)
    then show ?thesis using P by (simp add: n_def add_divide_distrib del: power_numeral)
  qed
  finally have e: "\<bar>sgn r * v / P - r\<bar> \<le> \<bar>r\<bar> / 2 ^ 53 + 1 / 2 ^ 1075" .
  have nn: "0 \<le> r \<longrightarrow> 0 \<le> sgn r * v / P" using v0 P by (simp add: sgn_real_def)
  show ?thesis using r e nn by blast
qed

lemma f64_round_nonneg:
  assumes "0 \<le> r" "r \<le> 2 ^ 1023"
  shows "\<exists>v. f64_round r = Finite v \<and> 0 \<le> v \<and> \<bar>v - r\<bar> \<le> r / 2 ^ 53 + 1 / 2 ^ 1075"
proof -
  have a: "\<bar>r\<bar> \<le> 2 ^ 1023" using assms by simp
  from f64_round_error [OF a] assms(1) show ?thesis by auto
qed

subsection \<open>The steps of the inversion\<close>

text \<open>
  The sum of four squares computed in doubles differs from the exact sum \<open>S\<close> by at most
  \<open>17 / 2 ^ 53 * S\<close>, when \<open>S\<close> lies between \<open>2 ^ - 1022\<close> and \<open>2 ^ 1022\<close>; the rounded
  reciprocal of that sum differs from \<open>1 / S\<close> by at most \<open>21 / 2 ^ 53 * (1 / S)\<close>; and
  the rounded product of a component \<open>a\<close> with it is finite and differs from \<open>a / S\<close> by
  at most \<open>\<bar>a / S\<bar> / 2 ^ 48 + 1 / 2 ^ 1075\<close>.
\<close>

lemma dot_f64_accurate:
  assumes n: "0 \<le> A0" "0 \<le> A1" "0 \<le> A2" "0 \<le> A3"
    and lo: "1 / 2 ^ 1022 \<le> A0 + A1 + A2 + A3"
    and hi: "A0 + A1 + A2 + A3 \<le> 2 ^ 1022"
  shows "\<exists>d. f64_add (f64_add (f64_add (f64_round A0) (f64_round A1)) (f64_round A2)) (f64_round A3)
               = Finite d
             \<and> \<bar>d - (A0 + A1 + A2 + A3)\<bar> \<le> 17 / 2 ^ 53 * (A0 + A1 + A2 + A3)"
proof -
  define h :: real where "h = 1 / 2 ^ 1075"
  define U :: real where "U = 2 ^ 1022"
  define L :: real where "L = 1 / 2 ^ 1022"
  have B: "(2::real) ^ 1023 = 2 * U" by (simp add: U_def)
  have c: "0 \<le> h" "h = L / 9007199254740992" "1024 \<le> U" "L \<le> 1"
    by (simp_all add: h_def L_def U_def)
  define X1 where "X1 = A0 + A1"
  define X2 where "X2 = X1 + A2"
  define X3 where "X3 = X2 + A3"
  have X: "0 \<le> X1" "X1 \<le> X2" "X2 \<le> X3" "X3 = A0 + A1 + A2 + A3"
    using n by (simp_all add: X1_def X2_def X3_def)
  have X3: "L \<le> X3" "X3 \<le> U" using lo hi X(4) by (simp_all add: L_def U_def)
  have r: "\<exists>v. f64_round r = Finite v \<and> 0 \<le> v \<and> \<bar>v - r\<bar> \<le> r / 9007199254740992 + h"
    if "0 \<le> r" "r \<le> 2 * U" for r
    using f64_round_nonneg [of r] that unfolding h_def B by simp
  have A: "A0 \<le> 2 * U" "A1 \<le> 2 * U" "A2 \<le> 2 * U" "A3 \<le> 2 * U"
    using n X X3 c unfolding X1_def X2_def X3_def by linarith+
  obtain s0 where s0: "f64_round A0 = Finite s0" "0 \<le> s0" "\<bar>s0 - A0\<bar> \<le> A0 / 9007199254740992 + h"
    using r [OF n(1) A(1)] by blast
  obtain s1 where s1: "f64_round A1 = Finite s1" "0 \<le> s1" "\<bar>s1 - A1\<bar> \<le> A1 / 9007199254740992 + h"
    using r [OF n(2) A(2)] by blast
  obtain s2 where s2: "f64_round A2 = Finite s2" "0 \<le> s2" "\<bar>s2 - A2\<bar> \<le> A2 / 9007199254740992 + h"
    using r [OF n(3) A(3)] by blast
  obtain s3 where s3: "f64_round A3 = Finite s3" "0 \<le> s3" "\<bar>s3 - A3\<bar> \<le> A3 / 9007199254740992 + h"
    using r [OF n(4) A(4)] by blast
  have u1: "0 \<le> s0 + s1" "\<bar>s0 + s1 - X1\<bar> \<le> X1 / 9007199254740992 + 2 * h"
    using s0(2,3) s1(2,3) unfolding X1_def by argo+
  have "s0 + s1 \<le> 2 * U" using u1(2) X X3 c by argo
  from r [OF u1(1) this] obtain t1 where t1: "f64_round (s0 + s1) = Finite t1" "0 \<le> t1"
    "\<bar>t1 - (s0 + s1)\<bar> \<le> (s0 + s1) / 9007199254740992 + h" by blast
  have v1: "\<bar>t1 - X1\<bar> \<le> 3 * X1 / 9007199254740992 + 4 * h"
    using t1(3) u1 X(1) c(1) by argo
  have u2: "0 \<le> t1 + s2" "\<bar>t1 + s2 - X2\<bar> \<le> 3 * X2 / 9007199254740992 + 5 * h"
    using t1(2) s2(2,3) v1 n(3) X(1) unfolding X2_def by argo+
  have "t1 + s2 \<le> 2 * U" using u2(2) X X3 c by argo
  from r [OF u2(1) this] obtain t2 where t2: "f64_round (t1 + s2) = Finite t2" "0 \<le> t2"
    "\<bar>t2 - (t1 + s2)\<bar> \<le> (t1 + s2) / 9007199254740992 + h" by blast
  have v2: "\<bar>t2 - X2\<bar> \<le> 5 * X2 / 9007199254740992 + 7 * h"
    using t2(3) u2 X(1,2) c(1) by argo
  have u3: "0 \<le> t2 + s3" "\<bar>t2 + s3 - X3\<bar> \<le> 5 * X3 / 9007199254740992 + 8 * h"
    using t2(2) s3(2,3) v2 n(4) X(1,2) unfolding X3_def by argo+
  have "t2 + s3 \<le> 2 * U" using u3(2) X X3 c by argo
  from r [OF u3(1) this] obtain d where d: "f64_round (t2 + s3) = Finite d" "0 \<le> d"
    "\<bar>d - (t2 + s3)\<bar> \<le> (t2 + s3) / 9007199254740992 + h" by blast
  have v3: "\<bar>d - X3\<bar> \<le> 7 * X3 / 9007199254740992 + 10 * h"
    using d(3) u3 X c(1) by argo
  have e: "f64_add (f64_add (f64_add (f64_round A0) (f64_round A1)) (f64_round A2)) (f64_round A3)
               = Finite d"
    by (simp add: f64_add_def s0 s1 s2 s3 t1 t2 d)
  have "\<bar>d - X3\<bar> \<le> 17 / 9007199254740992 * X3" using v3 X3(1) c by argo
  then have "\<bar>d - X3\<bar> \<le> 17 / 2 ^ 53 * X3" by simp
  then show ?thesis using e unfolding X(4) by blast
qed

lemma pos_from_bound: "1 / 2 ^ n \<le> (x::real) \<Longrightarrow> 0 < x"
proof -
  assume a: "1 / 2 ^ n \<le> x"
  have "0 < 1 / (2::real) ^ n" by simp
  then show "0 < x" using a by (rule less_le_trans)
qed

lemma prod_in_range:
  assumes "a * a \<le> 2 * d" "1 / 2 ^ 1023 \<le> (d::real)" "0 \<le> i" "i \<le> 2 / d"
  shows "\<bar>a * i\<bar> \<le> 2 ^ 1023"
proof -
  have dpos: "0 < d" using assms(2) by (rule pos_from_bound)
  then have dnn: "0 \<le> d" by simp
  have "(a * i)\<^sup>2 = (a * a) * (i * i)" by (simp add: power2_eq_square)
  also have "\<dots> \<le> (2 * d) * (2 / d * (2 / d))"
  proof -
    have ii: "i * i \<le> 2 / d * (2 / d)" using assms(3,4) dpos by (intro mult_mono) simp_all
    show ?thesis by (rule mult_mono [OF assms(1) ii]) (use dpos assms(3) in simp_all)
  qed
  also have "\<dots> = 8 / d" using dpos by (simp add: field_simps)
  also have "\<dots> \<le> 8 / (1 / 2 ^ 1023)" using assms(2) by (intro divide_left_mono) simp_all
  also have "\<dots> \<le> (2 ^ 1023)\<^sup>2" by simp
  finally have sq: "(a * i)\<^sup>2 \<le> (2 ^ 1023)\<^sup>2" .
  have "(0::real) \<le> 2 ^ 1023" by simp
  from power2_le_iff_abs_le [OF this] sq show ?thesis by blast
qed

lemma recip_f64_accurate:
  assumes S: "1 / 2 ^ 1022 \<le> S" "S \<le> 2 ^ 1022"
    and d: "\<bar>d - S\<bar> \<le> 17 / 2 ^ 53 * S"
  shows "\<exists>i. f64_round (1 / d) = Finite i \<and> 0 \<le> i \<and> i \<le> 2 / d
           \<and> \<bar>i - 1 / S\<bar> \<le> 21 / 2 ^ 53 * (1 / S)
           \<and> 1 / 2 ^ 1023 \<le> d \<and> S \<le> 2 * d"
proof -
  define h :: real where "h = 1 / 2 ^ 1075"
  define y where "y = 1 / S"
  define D where "D = 1 / d"
  have Spos: "0 < S" using S(1) by (rule pos_from_bound)
  have d': "\<bar>d - S\<bar> \<le> 17 / 9007199254740992 * S" using d by simp
  have dlo: "(1 - 17 / 9007199254740992) * S \<le> d" and dhi: "d \<le> (1 + 17 / 9007199254740992) * S"
    using d' by argo+
  have dpos: "0 < d" using dlo Spos by argo
  have ypos: "0 < y" using Spos by (simp add: y_def)
  have Dhi: "D \<le> (1 + 18 / 9007199254740992) * y"
  proof -
    have "1 / d \<le> 1 / ((1 - 17 / 9007199254740992) * S)"
      using dlo Spos by (intro divide_left_mono) simp_all
    also have "\<dots> = 1 / (1 - 17 / 9007199254740992) * y" by (simp add: y_def)
    also have "\<dots> \<le> (1 + 18 / 9007199254740992) * y"
      using ypos by (intro mult_right_mono) simp_all
    finally show ?thesis by (simp add: D_def)
  qed
  have Dlo: "(1 - 17 / 9007199254740992) * y \<le> D"
  proof -
    have "(1 - 17 / 9007199254740992) * y \<le> 1 / (1 + 17 / 9007199254740992) * y"
      using ypos by (intro mult_right_mono) simp_all
    also have "\<dots> = 1 / ((1 + 17 / 9007199254740992) * S)" by (simp add: y_def)
    also have "\<dots> \<le> 1 / d"
      using dhi dpos by (intro divide_left_mono) simp_all
    finally show ?thesis by (simp add: D_def)
  qed
  have hy: "h \<le> y / 9007199254740992"
  proof -
    have "1 / 2 ^ 1022 \<le> 1 / S" using S(2) Spos by (intro divide_left_mono) simp_all
    then have "1 / 2 ^ 1022 / 9007199254740992 \<le> y / 9007199254740992"
      unfolding y_def by (intro divide_right_mono) simp_all
    then show ?thesis by (simp add: h_def)
  qed
  have yhi: "y \<le> 2 ^ 1022"
  proof -
    have "1 / S \<le> 1 / (1 / 2 ^ 1022)" using S(1) by (intro divide_left_mono) simp_all
    then show ?thesis by (simp add: y_def)
  qed
  have "D \<le> 2 * 2 ^ 1022" using Dhi yhi ypos by argo
  then have D1: "D \<le> 2 ^ 1023" by simp
  have D0: "0 \<le> D" using dpos by (simp add: D_def)
  from f64_round_nonneg [OF D0 D1]
  obtain i where i: "f64_round D = Finite i" "0 \<le> i" "\<bar>i - D\<bar> \<le> D / 9007199254740992 + h"
    unfolding h_def by auto
  have h0: "0 \<le> h" by (simp add: h_def)
  have i2: "i \<le> 2 * D" using i(3) hy Dlo D0 ypos h0 by argo
  have acc: "\<bar>i - y\<bar> \<le> 21 / 9007199254740992 * y" using i(3) hy Dlo Dhi D0 ypos h0 by argo
  have d1: "1 / 2 ^ 1023 \<le> d"
  proof -
    have "1 / 2 ^ 1023 \<le> (1 - 17 / 9007199254740992) * (1 / (2::real) ^ 1022)" by simp
    also have "\<dots> \<le> (1 - 17 / 9007199254740992) * S" using S(1) by (intro mult_left_mono) simp_all
    finally show ?thesis using dlo by simp
  qed
  have d2: "S \<le> 2 * d" using dlo Spos by argo
  have "f64_round (1 / d) = Finite i" using i(1) by (simp add: D_def)
  moreover have "i \<le> 2 / d" using i2 by (simp add: D_def)
  moreover have "\<bar>i - 1 / S\<bar> \<le> 21 / 2 ^ 53 * (1 / S)" using acc by (simp add: y_def)
  ultimately show ?thesis using i(2) d1 d2 by blast
qed

lemma component_f64_accurate:
  assumes S: "1 / 2 ^ 1022 \<le> S" "S \<le> 2 ^ 1022"
    and i: "0 \<le> i" "i \<le> 2 / d" "\<bar>i - 1 / S\<bar> \<le> 21 / 2 ^ 53 * (1 / S)"
    and d: "1 / 2 ^ 1023 \<le> d" "S \<le> 2 * d"
    and a: "a * a \<le> S"
  shows "\<exists>x. f64_round (a * i) = Finite x \<and> \<bar>x - a / S\<bar> \<le> \<bar>a / S\<bar> / 2 ^ 48 + 1 / 2 ^ 1075"
proof -
  define h :: real where "h = 1 / 2 ^ 1075"
  define y where "y = 1 / S"
  define z where "z = \<bar>a\<bar> * y"
  have Spos: "0 < S" using S(1) by (rule pos_from_bound)
  have ypos: "0 < y" using Spos by (simp add: y_def)
  have z0: "0 \<le> z" using ypos by (simp add: z_def)
  have "a * a \<le> 2 * d" using a d(2) by simp
  then have r: "\<bar>a * i\<bar> \<le> 2 ^ 1023" using d(1) i(1,2) by (rule prod_in_range)
  from f64_round_error [OF r]
  obtain x where x: "f64_round (a * i) = Finite x" "\<bar>x - a * i\<bar> \<le> \<bar>a * i\<bar> / 9007199254740992 + h"
    unfolding h_def by auto
  have iy: "\<bar>i - y\<bar> \<le> 21 / 9007199254740992 * y" using i(3) by (simp add: y_def)
  have "\<bar>a * i - a * y\<bar> = \<bar>a\<bar> * \<bar>i - y\<bar>" by (simp add: right_diff_distrib [symmetric] abs_mult)
  also have "\<dots> \<le> \<bar>a\<bar> * (21 / 9007199254740992 * y)" using iy by (intro mult_left_mono) simp_all
  finally have p1: "\<bar>a * i - a * y\<bar> \<le> 21 / 9007199254740992 * z" by (simp add: z_def)
  have "i \<le> (1 + 21 / 9007199254740992) * y" using iy by argo
  then have "\<bar>a\<bar> * i \<le> \<bar>a\<bar> * ((1 + 21 / 9007199254740992) * y)" by (intro mult_left_mono) simp_all
  then have p2: "\<bar>a * i\<bar> \<le> (1 + 21 / 9007199254740992) * z"
    using i(1) by (simp add: z_def abs_mult)
  have "\<bar>x - a * y\<bar> \<le> 32 / 9007199254740992 * z + h" using x(2) p1 p2 z0 by argo
  moreover have "a * y = a / S" by (simp add: y_def)
  moreover have "z = \<bar>a / S\<bar>" using Spos by (simp add: z_def y_def abs_mult)
  ultimately have "\<bar>x - a / S\<bar> \<le> \<bar>a / S\<bar> / 2 ^ 48 + 1 / 2 ^ 1075" by (simp add: h_def)
  then show ?thesis using x(1) by blast
qed

subsection \<open>invert and qInvert\<close>

lemma qInvert_f64_eq: "qInvert_f64 q = Quat_invert_f64 q"
  by (simp add: qInvert_f64_def Quat_invert_f64_def)

lemma Quat_invert_f64_zero:
  "Quat_invert_f64 (Quat64 (Finite 0) (Finite 0) (Finite 0) (Finite 0))
     = Some (Quat64 (Finite 0) (Finite 0) (Finite 0) (Finite 0))"
  by (simp add: Quat_invert_f64_def Let_def f64_mul_def f64_add_def f64_round_0)

lemma Quat_invert_f64_exact:
  assumes "invert_exact a0 a1 a2 a3"
  shows "Quat_invert_f64 (Quat64 (Finite a0) (Finite a1) (Finite a2) (Finite a3)) =
    Some (if a0 * a0 + a1 * a1 + a2 * a2 + a3 * a3 = 0
          then Quat64 (Finite 0) (Finite 0) (Finite 0) (Finite 0)
          else Quat64 (Finite (- a0 / (a0 * a0 + a1 * a1 + a2 * a2 + a3 * a3)))
                      (Finite (- a1 / (a0 * a0 + a1 * a1 + a2 * a2 + a3 * a3)))
                      (Finite (- a2 / (a0 * a0 + a1 * a1 + a2 * a2 + a3 * a3)))
                      (Finite (a3 / (a0 * a0 + a1 * a1 + a2 * a2 + a3 * a3))))"
proof -
  define S where "S = a0 * a0 + a1 * a1 + a2 * a2 + a3 * a3"
  have e: "f64_round (a0 * a0) = Finite (a0 * a0)" "f64_round (a1 * a1) = Finite (a1 * a1)"
    "f64_round (a2 * a2) = Finite (a2 * a2)" "f64_round (a3 * a3) = Finite (a3 * a3)"
    "f64_round (a0 * a0 + a1 * a1) = Finite (a0 * a0 + a1 * a1)"
    "f64_round (a0 * a0 + a1 * a1 + a2 * a2) = Finite (a0 * a0 + a1 * a1 + a2 * a2)"
    "f64_round (a0 * a0 + a1 * a1 + a2 * a2 + a3 * a3) = Finite S"
    "f64_round (1 / S) = Finite (1 / S)"
    "f64_round (- a0 * (1 / S)) = Finite (- a0 * (1 / S))"
    "f64_round (- a1 * (1 / S)) = Finite (- a1 * (1 / S))"
    "f64_round (- a2 * (1 / S)) = Finite (- a2 * (1 / S))"
    "f64_round (a3 * (1 / S)) = Finite (a3 * (1 / S))"
    using assms unfolding invert_exact_def is_f64_def S_def by blast+
  have m: "f64_mul (Finite a) (Finite b) = f64_round (a * b)" for a b
    by (simp add: f64_mul_def)
  have a: "f64_add (Finite a) (Finite b) = f64_round (a + b)" for a b
    by (simp add: f64_add_def)
  have n: "f64_neg (Finite a) = Finite (- a)" for a
    by (simp add: f64_neg_def)
  have dv: "f64_div_checked (Finite 1) (Finite S) = Some (f64_round (1 / S))" if "S \<noteq> 0"
    using that by (simp add: f64_div_checked_def f64_div_def)
  have "Quat_invert_f64 (Quat64 (Finite a0) (Finite a1) (Finite a2) (Finite a3)) =
    Some (if S = 0 then Quat64 (Finite 0) (Finite 0) (Finite 0) (Finite 0)
          else Quat64 (Finite (- (a0 / S))) (Finite (- (a1 / S)))
                      (Finite (- (a2 / S))) (Finite (a3 / S)))"
  proof (cases "S = 0")
    case True
    then show ?thesis by (simp add: Quat_invert_f64_def Let_def m a e(1-7))
  next
    case False
    have p: "f64_round (- (a0 / S)) = Finite (- (a0 / S))"
      "f64_round (- (a1 / S)) = Finite (- (a1 / S))"
      "f64_round (- (a2 / S)) = Finite (- (a2 / S))"
      "f64_round (a3 / S) = Finite (a3 / S)"
      using e(9-12) by simp_all
    show ?thesis
      using False by (simp add: Quat_invert_f64_def Let_def m a n e(1-8) dv p)
  qed
  then show ?thesis unfolding S_def by simp
qed

text \<open>
  When no step rounds, the double reading of \<open>qInvert\<close> returns what the exact reading
  returns.
\<close>

lemma qInvert_f64_exact_reading:
  assumes "invert_exact a0 a1 a2 a3"
  shows "qInvert_f64 (Quat64 (Finite a0) (Finite a1) (Finite a2) (Finite a3)) =
    Some (Quat64 (Finite (q0 (qInvert (Quat a0 a1 a2 a3)))) (Finite (q1 (qInvert (Quat a0 a1 a2 a3))))
                 (Finite (q2 (qInvert (Quat a0 a1 a2 a3)))) (Finite (q3 (qInvert (Quat a0 a1 a2 a3)))))"
  unfolding qInvert_f64_eq Quat_invert_f64_exact [OF assms]
  by (simp add: qInvert_def Let_def)

lemma Quat_invert_f64_accurate:
  assumes "1 / 2 ^ 1022 \<le> a0 * a0 + a1 * a1 + a2 * a2 + a3 * a3"
    and "a0 * a0 + a1 * a1 + a2 * a2 + a3 * a3 \<le> 2 ^ 1022"
  shows "\<exists>x y z w.
           Quat_invert_f64 (Quat64 (Finite a0) (Finite a1) (Finite a2) (Finite a3))
             = Some (Quat64 (Finite x) (Finite y) (Finite z) (Finite w))
         \<and> \<bar>x - (- a0 / (a0 * a0 + a1 * a1 + a2 * a2 + a3 * a3))\<bar>
             \<le> \<bar>a0 / (a0 * a0 + a1 * a1 + a2 * a2 + a3 * a3)\<bar> / 2 ^ 48 + 1 / 2 ^ 1075
         \<and> \<bar>y - (- a1 / (a0 * a0 + a1 * a1 + a2 * a2 + a3 * a3))\<bar>
             \<le> \<bar>a1 / (a0 * a0 + a1 * a1 + a2 * a2 + a3 * a3)\<bar> / 2 ^ 48 + 1 / 2 ^ 1075
         \<and> \<bar>z - (- a2 / (a0 * a0 + a1 * a1 + a2 * a2 + a3 * a3))\<bar>
             \<le> \<bar>a2 / (a0 * a0 + a1 * a1 + a2 * a2 + a3 * a3)\<bar> / 2 ^ 48 + 1 / 2 ^ 1075
         \<and> \<bar>w - a3 / (a0 * a0 + a1 * a1 + a2 * a2 + a3 * a3)\<bar>
             \<le> \<bar>a3 / (a0 * a0 + a1 * a1 + a2 * a2 + a3 * a3)\<bar> / 2 ^ 48 + 1 / 2 ^ 1075"
proof -
  define S where "S = a0 * a0 + a1 * a1 + a2 * a2 + a3 * a3"
  have S: "1 / 2 ^ 1022 \<le> S" "S \<le> 2 ^ 1022" using assms by (simp_all add: S_def)
  from dot_f64_accurate [of "a0 * a0" "a1 * a1" "a2 * a2" "a3 * a3"] assms
  obtain d where d: "f64_add (f64_add (f64_add (f64_round (a0 * a0)) (f64_round (a1 * a1)))
                       (f64_round (a2 * a2))) (f64_round (a3 * a3)) = Finite d"
    "\<bar>d - S\<bar> \<le> 17 / 2 ^ 53 * S"
    unfolding S_def by auto
  from recip_f64_accurate [OF S d(2)]
  obtain i where i: "f64_round (1 / d) = Finite i" "0 \<le> i" "i \<le> 2 / d"
    "\<bar>i - 1 / S\<bar> \<le> 21 / 2 ^ 53 * (1 / S)" "1 / 2 ^ 1023 \<le> d" "S \<le> 2 * d"
    by blast
  have nz: "d \<noteq> 0" using pos_from_bound [OF i(5)] by simp
  have sq: "a0 * a0 \<le> S" "a1 * a1 \<le> S" "a2 * a2 \<le> S" "a3 * a3 \<le> S"
    unfolding S_def
    using zero_le_square [of a0] zero_le_square [of a1] zero_le_square [of a2]
      zero_le_square [of a3]
    by linarith+
  have c: "\<exists>x. f64_round (a * i) = Finite x \<and> \<bar>x - a / S\<bar> \<le> \<bar>a / S\<bar> / 2 ^ 48 + 1 / 2 ^ 1075"
    if "a * a \<le> S" for a
    using component_f64_accurate [OF S i(2,3,4,5,6) that] .
  obtain x where x: "f64_round (- (a0 * i)) = Finite x"
    "\<bar>x - (- a0 / S)\<bar> \<le> \<bar>a0 / S\<bar> / 2 ^ 48 + 1 / 2 ^ 1075"
    using c [of "- a0"] sq(1) by auto
  obtain y where y: "f64_round (- (a1 * i)) = Finite y"
    "\<bar>y - (- a1 / S)\<bar> \<le> \<bar>a1 / S\<bar> / 2 ^ 48 + 1 / 2 ^ 1075"
    using c [of "- a1"] sq(2) by auto
  obtain z where z: "f64_round (- (a2 * i)) = Finite z"
    "\<bar>z - (- a2 / S)\<bar> \<le> \<bar>a2 / S\<bar> / 2 ^ 48 + 1 / 2 ^ 1075"
    using c [of "- a2"] sq(3) by auto
  obtain w where w: "f64_round (a3 * i) = Finite w"
    "\<bar>w - a3 / S\<bar> \<le> \<bar>a3 / S\<bar> / 2 ^ 48 + 1 / 2 ^ 1075"
    using c [of a3] sq(4) by auto
  have m: "f64_mul (Finite a) (Finite b) = f64_round (a * b)" for a b
    by (simp add: f64_mul_def)
  have "Quat_invert_f64 (Quat64 (Finite a0) (Finite a1) (Finite a2) (Finite a3))
          = Some (Quat64 (Finite x) (Finite y) (Finite z) (Finite w))"
    unfolding Quat_invert_f64_def Let_def Quat64.sel m d(1)
    using nz by (simp add: f64_div_checked_def f64_div_def f64_neg_def f64_mul_def
                   i(1) x(1) y(1) z(1) w(1))
  then show ?thesis using x(2) y(2) z(2) w(2) unfolding S_def by blast
qed

subsection \<open>The claim on the inversion\<close>

text \<open>
  C8, as the claim states it, fails. The quaternion \<open>(2 ^ - 537, 0, 0, 0)\<close> is made of
  doubles and its squared magnitude \<open>2 ^ - 1074\<close> is the smallest positive double, not
  zero. Both functions pass the zero test and compute \<open>1.0 / dot\<close>, which overflows to
  \<open>Infinity\<close>; the result is \<open>(-Infinity, NaN, NaN, NaN)\<close>, while the conjugate divided
  by the squared magnitude is \<open>(- 2 ^ 537, 0, 0, 0)\<close>, a quaternion of doubles.
\<close>

theorem Quat_invert_f64_counterexample:
  "Quat_invert_f64 (Quat64 (Finite (1 / 2 ^ 537)) (Finite 0) (Finite 0) (Finite 0))
     = Some (Quat64 NegInf NaN NaN NaN)
   \<and> qInvert_f64 (Quat64 (Finite (1 / 2 ^ 537)) (Finite 0) (Finite 0) (Finite 0))
     = Some (Quat64 NegInf NaN NaN NaN)
   \<and> is_f64 (1 / 2 ^ 537) \<and> is_f64 0
   \<and> (1 / 2 ^ 537) * (1 / 2 ^ 537) + 0 * 0 + 0 * 0 + 0 * 0 = (1 / 2 ^ 1074 :: real)
   \<and> (1 / 2 ^ 1074 :: real) \<noteq> 0
   \<and> - (1 / 2 ^ 537) / (1 / 2 ^ 1074) = (- (2 ^ 537) :: real)
   \<and> is_f64 (- (2 ^ 537))"
proof -
  have sq: "(1 / 2 ^ 537) * (1 / 2 ^ 537) = real_of_int 1 / 2 ^ 1074"
    by (simp add: power_add [symmetric] del: power_numeral)
  have r1: "f64_round (real_of_int 1 / 2 ^ 1074) = Finite (real_of_int 1 / 2 ^ 1074)"
    by (rule f64_round_dyadic) simp_all
  have m1: "f64_mul (Finite (1 / 2 ^ 537)) (Finite (1 / 2 ^ 537)) = Finite (1 / 2 ^ 1074)"
    using r1 unfolding f64_mul_def prod.case f64.case sq by simp
  have m0: "f64_mul (Finite 0) (Finite 0) = Finite 0"
    by (simp add: f64_mul_def f64_round_0)
  have a0: "f64_add (Finite (1 / 2 ^ 1074)) (Finite 0) = Finite (1 / 2 ^ 1074)"
    using r1 by (simp add: f64_add_def del: power_numeral)
  have nz: "Finite (1 / 2 ^ 1074) \<noteq> Finite 0" by simp
  have dv: "f64_div_checked (Finite 1.0) (Finite (1 / 2 ^ 1074)) = Some PosInf"
    using f64_round_pow2_overflow [of 1074]
    by (simp add: f64_div_checked_def f64_div_def del: power_numeral)
  have x: "f64_mul (f64_neg (Finite (1 / 2 ^ 537))) PosInf = NegInf"
    by (simp add: f64_mul_def f64_neg_def del: power_numeral)
  have y: "f64_mul (f64_neg (Finite 0)) PosInf = NaN" "f64_mul (Finite 0) PosInf = NaN"
    by (simp_all add: f64_mul_def f64_neg_def)
  have inv: "Quat_invert_f64 (Quat64 (Finite (1 / 2 ^ 537)) (Finite 0) (Finite 0) (Finite 0))
     = Some (Quat64 NegInf NaN NaN NaN)"
    unfolding Quat_invert_f64_def Let_def Quat64.sel m1 m0 a0 dv x y
    using nz by (simp only: if_False option.case x y)
  have qinv: "qInvert_f64 (Quat64 (Finite (1 / 2 ^ 537)) (Finite 0) (Finite 0) (Finite 0))
     = Some (Quat64 NegInf NaN NaN NaN)"
    unfolding qInvert_f64_eq by (rule inv)
  have i1: "is_f64 (1 / 2 ^ 537)"
    unfolding is_f64_def using f64_round_dyadic [of 1 537] by simp
  have i0: "is_f64 0" by (simp add: is_f64_def f64_round_0)
  have s: "(1 / 2 ^ 537) * (1 / 2 ^ 537) + 0 * 0 + 0 * 0 + 0 * 0 = (1 / 2 ^ 1074 :: real)"
    using sq by simp
  have c: "- (1 / 2 ^ 537) / (1 / 2 ^ 1074) = (- (2 ^ 537) :: real)" by simp
  have i2: "is_f64 (- (2 ^ 537))"
    unfolding is_f64_def using f64_round_scaled [of "- 1" 537] by simp
  show ?thesis using inv qinv i1 i0 s c i2 by simp
qed

text \<open>
  C8, amended. \<open>Quat.invert\<close> and \<open>qInvert\<close> compute the same quaternion, on every
  quaternion of doubles they return one, and the division \<open>1.0 / dot\<close> is never reached
  with a zero divisor (the result is \<open>Some\<close>). On the all-zero quaternion the result is
  the all-zero quaternion, not the identity. On a quaternion \<open>(a0, a1, a2, a3)\<close> of
  finite numbers with the squared magnitude \<open>S\<close>:

  \<^item> when every arithmetic step is exact, the result is the all-zero quaternion if \<open>S\<close>
    is zero, and the conjugate divided by \<open>S\<close> otherwise;

  \<^item> when \<open>S\<close> lies between \<open>2 ^ - 1022\<close>, the smallest normal double, and
    \<open>2 ^ 1022\<close>, the four components of the result are finite, and each differs from the
    component \<open>c\<close> of the conjugate divided by \<open>S\<close> by at most
    \<open>\<bar>c\<bar> / 2 ^ 48 + 1 / 2 ^ 1075\<close>.
\<close>

theorem Quat_invert_f64_spec:
  "qInvert_f64 q = Quat_invert_f64 q
   \<and> Quat_invert_f64 q \<noteq> None
   \<and> Quat_invert_f64 (Quat64 (Finite 0) (Finite 0) (Finite 0) (Finite 0))
       = Some (Quat64 (Finite 0) (Finite 0) (Finite 0) (Finite 0))
   \<and> (invert_exact a0 a1 a2 a3 \<longrightarrow>
        Quat_invert_f64 (Quat64 (Finite a0) (Finite a1) (Finite a2) (Finite a3)) =
          Some (if a0 * a0 + a1 * a1 + a2 * a2 + a3 * a3 = 0
                then Quat64 (Finite 0) (Finite 0) (Finite 0) (Finite 0)
                else Quat64 (Finite (- a0 / (a0 * a0 + a1 * a1 + a2 * a2 + a3 * a3)))
                            (Finite (- a1 / (a0 * a0 + a1 * a1 + a2 * a2 + a3 * a3)))
                            (Finite (- a2 / (a0 * a0 + a1 * a1 + a2 * a2 + a3 * a3)))
                            (Finite (a3 / (a0 * a0 + a1 * a1 + a2 * a2 + a3 * a3)))))
   \<and> (1 / 2 ^ 1022 \<le> a0 * a0 + a1 * a1 + a2 * a2 + a3 * a3
        \<and> a0 * a0 + a1 * a1 + a2 * a2 + a3 * a3 \<le> 2 ^ 1022 \<longrightarrow>
        (\<exists>x y z w.
           Quat_invert_f64 (Quat64 (Finite a0) (Finite a1) (Finite a2) (Finite a3))
             = Some (Quat64 (Finite x) (Finite y) (Finite z) (Finite w))
         \<and> \<bar>x - (- a0 / (a0 * a0 + a1 * a1 + a2 * a2 + a3 * a3))\<bar>
             \<le> \<bar>a0 / (a0 * a0 + a1 * a1 + a2 * a2 + a3 * a3)\<bar> / 2 ^ 48 + 1 / 2 ^ 1075
         \<and> \<bar>y - (- a1 / (a0 * a0 + a1 * a1 + a2 * a2 + a3 * a3))\<bar>
             \<le> \<bar>a1 / (a0 * a0 + a1 * a1 + a2 * a2 + a3 * a3)\<bar> / 2 ^ 48 + 1 / 2 ^ 1075
         \<and> \<bar>z - (- a2 / (a0 * a0 + a1 * a1 + a2 * a2 + a3 * a3))\<bar>
             \<le> \<bar>a2 / (a0 * a0 + a1 * a1 + a2 * a2 + a3 * a3)\<bar> / 2 ^ 48 + 1 / 2 ^ 1075
         \<and> \<bar>w - a3 / (a0 * a0 + a1 * a1 + a2 * a2 + a3 * a3)\<bar>
             \<le> \<bar>a3 / (a0 * a0 + a1 * a1 + a2 * a2 + a3 * a3)\<bar> / 2 ^ 48 + 1 / 2 ^ 1075))"
proof -
  have t: "Quat_invert_f64 q \<noteq> None"
    by (simp add: Quat_invert_f64_def Let_def f64_div_checked_def)
  show ?thesis
    using qInvert_f64_eq [of q] t Quat_invert_f64_zero
      Quat_invert_f64_exact [of a0 a1 a2 a3] Quat_invert_f64_accurate [of a0 a1 a2 a3]
    by blast
qed

theorem Quat_invert_f64_spec_witness:
  "invert_exact (1 / 2) (1 / 2) (1 / 2) (1 / 2)
   \<and> 1 / 2 ^ 1022 \<le> (1 / 2) * (1 / 2) + (1 / 2) * (1 / 2) + (1 / 2) * (1 / 2) + (1 / 2) * (1 / 2 :: real)
   \<and> (1 / 2) * (1 / 2) + (1 / 2) * (1 / 2) + (1 / 2) * (1 / 2) + (1 / 2) * (1 / 2 :: real) \<le> 2 ^ 1022
   \<and> Quat_invert_f64 (Quat64 (Finite (1 / 2)) (Finite (1 / 2)) (Finite (1 / 2)) (Finite (1 / 2)))
       = Some (Quat64 (Finite (- 1 / 2)) (Finite (- 1 / 2)) (Finite (- 1 / 2)) (Finite (1 / 2)))
   \<and> qInvert_f64 (Quat64 (Finite (1 / 2)) (Finite (1 / 2)) (Finite (1 / 2)) (Finite (1 / 2)))
       = Some (Quat64 (Finite (- 1 / 2)) (Finite (- 1 / 2)) (Finite (- 1 / 2)) (Finite (1 / 2)))"
proof -
  have d: "is_f64 (real_of_int m / 2 ^ e)" if "\<bar>m\<bar> < 2 ^ 53" "e \<le> 1074" for m e
    unfolding is_f64_def using that by (rule f64_round_dyadic)
  have "is_f64 (1 / 4)" using d [of 1 2] by simp
  moreover have "is_f64 (1 / 2)" using d [of 1 1] by simp
  moreover have "is_f64 (3 / 4)" using d [of 3 2] by simp
  moreover have "is_f64 1" using d [of 1 0] by simp
  moreover have "is_f64 (- (1 / 2))" using d [of "- 1" 1] by simp
  ultimately have ex: "invert_exact (1 / 2) (1 / 2) (1 / 2) (1 / 2)"
    by (simp add: invert_exact_def)
  have lo: "1 / 2 ^ 1022 \<le> (1 / 2) * (1 / 2) + (1 / 2) * (1 / 2) + (1 / 2) * (1 / 2) + (1 / 2) * (1 / 2 :: real)"
    by simp
  have hi: "(1 / 2) * (1 / 2) + (1 / 2) * (1 / 2) + (1 / 2) * (1 / 2) + (1 / 2) * (1 / 2 :: real) \<le> 2 ^ 1022"
    by simp
  let ?q = "Quat64 (Finite (1 / 2)) (Finite (1 / 2)) (Finite (1 / 2)) (Finite (1 / 2))"
  from Quat_invert_f64_spec [of ?q "1 / 2" "1 / 2" "1 / 2" "1 / 2"] ex
  have r: "Quat_invert_f64 ?q
       = Some (Quat64 (Finite (- 1 / 2)) (Finite (- 1 / 2)) (Finite (- 1 / 2)) (Finite (1 / 2)))"
    and e: "qInvert_f64 ?q = Quat_invert_f64 ?q"
    by simp_all
  show ?thesis using ex lo hi r e by simp
qed
section \<open>The world transform of a joint: the walk to the root and the batch update\<close>

subsection \<open>The walk to the root\<close>

lemma parents_firstD:
  assumes "parents_first js" "i < length js"
  shows "pindex (js ! i) = - 1 \<or> (\<exists>q. q < i \<and> pindex (js ! i) = int q)"
proof -
  from assms have "pindex (js ! i) = - 1 \<or> (0 \<le> pindex (js ! i) \<and> pindex (js ! i) < int i)"
    by (simp add: parents_first_def list_all_iff)
  then show ?thesis
  proof
    assume "pindex (js ! i) = - 1" then show ?thesis by simp
  next
    assume h: "0 \<le> pindex (js ! i) \<and> pindex (js ! i) < int i"
    then have "nat (pindex (js ! i)) < i \<and> pindex (js ! i) = int (nat (pindex (js ! i)))" by linarith
    then show ?thesis by blast
  qed
qed

lemma rigid_parentsD:
  assumes "rigid_parents js" "i < length js" "pindex (js ! i) = int q"
  shows "rigid (local (js ! q))"
proof -
  from assms(1,2) have "pindex (js ! i) = - 1 \<or> rigid (local (js ! nat (pindex (js ! i))))"
    by (simp add: rigid_parents_def list_all_length)
  with assms(3) show ?thesis by simp
qed

lemma walk_up_root: "pindex j = - 1 \<Longrightarrow> walk_up js j t = Some (Returns t)"
  by (subst walk_up.simps) simp

lemma walk_up_parent:
  "pindex j = int q \<Longrightarrow> q < length js \<Longrightarrow>
   walk_up js j t = walk_up js (js ! q) (Transform_fromMul (local (js ! q)) t)"
  by (subst walk_up.simps) (simp add: js_index_def Transform_pmul_fromMul)

lemma walk_up_compose:
  assumes pf: "parents_first js" and rp: "rigid_parents js"
  shows "q < length js \<Longrightarrow> unit_quat (rot t) \<Longrightarrow>
         \<exists>w. walk_up js (js ! q) t = Some (Returns w) \<and> unit_quat (rot w)
            \<and> walk_up js (js ! q) (Transform_fromMul t c) = Some (Returns (Transform_fromMul w c))"
proof (induction q arbitrary: t rule: less_induct)
  case (less q)
  from parents_firstD [OF pf less.prems(1)]
  show ?case
  proof
    assume "pindex (js ! q) = - 1"
    then show ?thesis using less.prems(2) by (simp add: walk_up_root)
  next
    assume "\<exists>r. r < q \<and> pindex (js ! q) = int r"
    then obtain r where r: "r < q" "pindex (js ! q) = int r" by blast
    have rl: "r < length js" using r(1) less.prems(1) by simp
    have rg: "rigid (local (js ! r))" by (rule rigid_parentsD [OF rp less.prems(1) r(2)])
    have ut: "unit_quat (rot (Transform_fromMul (local (js ! r)) t))"
      using rg less.prems(2) by (simp add: fromMul_unit rigid_def)
    from less.IH [OF r(1) rl ut]
    obtain w where w: "walk_up js (js ! r) (Transform_fromMul (local (js ! r)) t) = Some (Returns w)"
      "unit_quat (rot w)"
      "walk_up js (js ! r) (Transform_fromMul (Transform_fromMul (local (js ! r)) t) c)
         = Some (Returns (Transform_fromMul w c))"
      by blast
    have "walk_up js (js ! q) t = Some (Returns w)"
      using w(1) by (simp add: walk_up_parent [OF r(2) rl])
    moreover have "walk_up js (js ! q) (Transform_fromMul t c) = Some (Returns (Transform_fromMul w c))"
      using w(3) by (simp add: walk_up_parent [OF r(2) rl] fromMul_assoc_rigid [OF rg less.prems(2)])
    ultimately show ?thesis using w(2) by blast
  qed
qed

lemma walk_up_same_tree:
  assumes pf: "parents_first js" and len: "length js' = length js"
    and same: "\<forall>i<length js. local (js' ! i) = local (js ! i) \<and> pindex (js' ! i) = pindex (js ! i)"
  shows "q < length js \<Longrightarrow> walk_up js' (js' ! q) t = walk_up js (js ! q) t"
proof (induction q arbitrary: t rule: less_induct)
  case (less q)
  have sq: "local (js' ! q) = local (js ! q)" "pindex (js' ! q) = pindex (js ! q)"
    using same less.prems by simp_all
  from parents_firstD [OF pf less.prems]
  show ?case
  proof
    assume "pindex (js ! q) = - 1"
    then show ?thesis using sq by (simp add: walk_up_root)
  next
    assume "\<exists>r. r < q \<and> pindex (js ! q) = int r"
    then obtain r where r: "r < q" "pindex (js ! q) = int r" by blast
    have rl: "r < length js" using r(1) less.prems by simp
    have rl': "r < length js'" using rl len by simp
    have r': "pindex (js' ! q) = int r" using r(2) sq by simp
    have sr: "local (js' ! r) = local (js ! r)" using same rl by simp
    show ?thesis
      using less.IH [OF r(1) rl]
      by (simp add: walk_up_parent [OF r(2) rl] walk_up_parent [OF r' rl'] sr)
  qed
qed

subsection \<open>One call of getWorld\<close>

lemma getWorld_joint:
  assumes "k < length (joints p)"
  shows "getWorld p (int k) out =
    (case walk_up (joints p) (joints p ! k) (local (joints p ! k)) of
       None \<Rightarrow> None
     | Some (Returns t) \<Rightarrow>
         Some (Returns (Transform_fromMul (rootOffset p) (Transform_fromMul (poseOffset p) t)))
     | Some r \<Rightarrow> Some r)"
  using assms
  by (simp add: getWorld_def getJoint_def js_index_def Transform_pmul_fromMul
      split: option.split result.split)

lemma getWorld_root_joint:
  assumes "rigid (rootOffset p)" "unit_quat (rot (poseOffset p))"
    and "k < length (joints p)" "pindex (joints p ! k) = - 1"
  shows "getWorld p (int k) out =
     Some (Returns (Transform_mul (Transform_fromMul (rootOffset p) (poseOffset p)) (local (joints p ! k))))"
  using assms(3,4)
  by (simp add: getWorld_joint walk_up_root Transform_mul_fromMul fromMul_assoc_rigid [OF assms(1,2)])

lemma getWorld_child_joint:
  assumes pf: "parents_first (joints p)" and rp: "rigid_parents (joints p)"
    and rR: "rigid (rootOffset p)" and rP: "rigid (poseOffset p)"
    and k: "k < length (joints p)" and q: "pindex (joints p ! k) = int q" "q < k"
  shows "\<exists>w. getWorld p (int q) out = Some (Returns w)
           \<and> getWorld p (int k) out = Some (Returns (Transform_fromMul w (local (joints p ! k))))"
proof -
  have ql: "q < length (joints p)" using q(2) k by simp
  have rq: "rigid (local (joints p ! q))" by (rule rigid_parentsD [OF rp k q(1)])
  then have uq: "unit_quat (rot (local (joints p ! q)))" by (simp add: rigid_def)
  from walk_up_compose [OF pf rp ql uq, of "local (joints p ! k)"]
  obtain w where w: "walk_up (joints p) (joints p ! q) (local (joints p ! q)) = Some (Returns w)"
    "unit_quat (rot w)"
    "walk_up (joints p) (joints p ! q) (Transform_fromMul (local (joints p ! q)) (local (joints p ! k)))
       = Some (Returns (Transform_fromMul w (local (joints p ! k))))"
    by blast
  have uP: "unit_quat (rot (poseOffset p))" using rP by (simp add: rigid_def)
  have uPw: "unit_quat (rot (Transform_fromMul (poseOffset p) w))"
    using uP w(2) by (simp add: fromMul_unit)
  have gq: "getWorld p (int q) out =
      Some (Returns (Transform_fromMul (rootOffset p) (Transform_fromMul (poseOffset p) w)))"
    using w(1) by (simp add: getWorld_joint [OF ql])
  have "walk_up (joints p) (joints p ! k) (local (joints p ! k))
      = Some (Returns (Transform_fromMul w (local (joints p ! k))))"
    using w(3) by (simp add: walk_up_parent [OF q(1) ql])
  then have gk: "getWorld p (int k) out =
      Some (Returns (Transform_fromMul (rootOffset p)
              (Transform_fromMul (poseOffset p) (Transform_fromMul w (local (joints p ! k))))))"
    by (simp add: getWorld_joint [OF k])
  have "Transform_fromMul (Transform_fromMul (rootOffset p) (Transform_fromMul (poseOffset p) w))
          (local (joints p ! k))
      = Transform_fromMul (rootOffset p)
              (Transform_fromMul (poseOffset p) (Transform_fromMul w (local (joints p ! k))))"
    by (simp add: fromMul_assoc_rigid [OF rR uPw] fromMul_assoc_rigid [OF rP w(2)])
  with gq gk show ?thesis by simp
qed

subsection \<open>The loop of updateWorld\<close>

lemma updateWorld_loop_correct:
  assumes pf: "parents_first (joints p)" and rp: "rigid_parents (joints p)"
    and rR: "rigid (rootOffset p)" and rP: "rigid (poseOffset p)"
  shows "k + n = length (joints p) \<Longrightarrow> length js = length (joints p) \<Longrightarrow>
    (\<forall>i<length (joints p). local (js ! i) = local (joints p ! i) \<and> pindex (js ! i) = pindex (joints p ! i)) \<Longrightarrow>
    (\<forall>i<k. getWorld p (int i) out = Some (Returns (world (js ! i)))) \<Longrightarrow>
    \<exists>js'. updateWorld_loop (rootOffset p) (poseOffset p) js k n = Returns js'
        \<and> length js' = length (joints p)
        \<and> (\<forall>i<length (joints p). local (js' ! i) = local (joints p ! i) \<and> pindex (js' ! i) = pindex (joints p ! i))
        \<and> (\<forall>i<length (joints p). getWorld p (int i) out = Some (Returns (world (js' ! i))))"
proof (induction n arbitrary: k js)
  case 0
  then show ?case by simp
next
  case (Suc n)
  have k: "k < length (joints p)" using Suc.prems(1) by simp
  have kj: "k < length js" using k Suc.prems(2) by simp
  have same: "local (js ! k) = local (joints p ! k)" "pindex (js ! k) = pindex (joints p ! k)"
    using Suc.prems(3) k by simp_all
  have uP: "unit_quat (rot (poseOffset p))" using rP by (simp add: rigid_def)
  obtain js1 where step: "updateWorld_step (rootOffset p) (poseOffset p) js k = Returns js1"
    and len1: "length js1 = length (joints p)"
    and same1: "\<forall>i<length (joints p). local (js1 ! i) = local (joints p ! i) \<and> pindex (js1 ! i) = pindex (joints p ! i)"
    and inv1: "\<forall>i<Suc k. getWorld p (int i) out = Some (Returns (world (js1 ! i)))"
  proof -
    from parents_firstD [OF pf k]
    show ?thesis
    proof
      assume root: "pindex (joints p ! k) = - 1"
      let ?js1 = "js[k := (js ! k)\<lparr> world := Transform_mul (Transform_fromMul (rootOffset p) (poseOffset p)) (local (js ! k)) \<rparr>]"
      have s: "updateWorld_step (rootOffset p) (poseOffset p) js k = Returns ?js1"
        using root same by (simp add: updateWorld_step_def Let_def)
      have l: "length ?js1 = length (joints p)" using Suc.prems(2) by simp
      have sm: "\<forall>i<length (joints p). local (?js1 ! i) = local (joints p ! i) \<and> pindex (?js1 ! i) = pindex (joints p ! i)"
        using Suc.prems(2,3) kj by (auto simp: nth_list_update)
      have iv: "\<forall>i<Suc k. getWorld p (int i) out = Some (Returns (world (?js1 ! i)))"
        using Suc.prems(4) kj same getWorld_root_joint [OF rR uP k root, of out]
        by (auto simp: nth_list_update less_Suc_eq)
      from that [OF s l sm iv] show ?thesis .
    next
      assume "\<exists>q. q < k \<and> pindex (joints p ! k) = int q"
      then obtain q where q: "q < k" "pindex (joints p ! k) = int q" by blast
      let ?js1 = "js[k := (js ! k)\<lparr> world := Transform_fromMul (world (js ! q)) (local (js ! k)) \<rparr>]"
      have ql: "q < length js" using q(1) kj by simp
      have s: "updateWorld_step (rootOffset p) (poseOffset p) js k = Returns ?js1"
        using q ql same by (simp add: updateWorld_step_def Let_def js_index_def)
      have l: "length ?js1 = length (joints p)" using Suc.prems(2) by simp
      have sm: "\<forall>i<length (joints p). local (?js1 ! i) = local (joints p ! i) \<and> pindex (?js1 ! i) = pindex (joints p ! i)"
        using Suc.prems(2,3) kj by (auto simp: nth_list_update)
      from getWorld_child_joint [OF pf rp rR rP k q(2) q(1), of out]
      obtain w where w: "getWorld p (int q) out = Some (Returns w)"
        "getWorld p (int k) out = Some (Returns (Transform_fromMul w (local (joints p ! k))))"
        by blast
      have wq: "world (js ! q) = w" using Suc.prems(4) q(1) w(1) by simp
      have iv: "\<forall>i<Suc k. getWorld p (int i) out = Some (Returns (world (?js1 ! i)))"
        using Suc.prems(4) kj same w(2) wq
        by (auto simp: nth_list_update less_Suc_eq)
      from that [OF s l sm iv] show ?thesis .
    qed
  qed
  have "Suc k + n = length (joints p)" using Suc.prems(1) by simp
  from Suc.IH [OF this len1 same1 inv1] step
  show ?case by simp
qed

lemma walk_up_unfold:
  "walk_up js joint t =
    (if pindex joint \<noteq> - 1 then
       (case js_index js (pindex joint) of
          None \<Rightarrow> Some (Throws TypeError t)
        | Some parent \<Rightarrow> walk_up js parent (Transform_pmul t (local parent)))
     else Some (Returns t))"
  by (rule walk_up.simps)

subsection \<open>The two agree on rigid skeletons only\<close>

text \<open>
  C1, as the claim states it, fails. In the pose below (four joints on three levels,
  identity offsets) the hips are scaled by \<open>(2, 1, 1)\<close> and the spine is rotated by a
  third of a turn. \<open>updateWorld\<close> caches the position \<open>(0, 2, 0)\<close> for the head,
  \<open>getWorld (2)\<close> returns \<open>(0, 1, 0)\<close>. All numbers are exact in binary floating
  point.
\<close>

theorem updateWorld_getWorld_counterexample:
  "updateWorld (ex_pose Transform_new Transform_new Transform_new Transform_new) =
     Returns (ex_pose \<lparr> rot = Quat 0 0 0 1, pos = Vec3 0 0 0, scl = Vec3 2 1 1 \<rparr>
                      \<lparr> rot = Quat (1/2) (1/2) (1/2) (1/2), pos = Vec3 0 0 0, scl = Vec3 2 1 1 \<rparr>
                      \<lparr> rot = Quat (1/2) (1/2) (1/2) (1/2), pos = Vec3 0 2 0, scl = Vec3 2 1 1 \<rparr>
                      \<lparr> rot = Quat 0 0 0 1, pos = Vec3 0 1 0, scl = Vec3 2 1 1 \<rparr>)
   \<and> getWorld (ex_pose Transform_new Transform_new Transform_new Transform_new) 2 Transform_new =
       Some (Returns \<lparr> rot = Quat (1/2) (1/2) (1/2) (1/2), pos = Vec3 0 1 0, scl = Vec3 2 1 1 \<rparr>)
   \<and> \<bar>(2::real) - 1\<bar> > 1 / 100000"
proof -
  have u: "updateWorld (ex_pose Transform_new Transform_new Transform_new Transform_new) =
     Returns (ex_pose \<lparr> rot = Quat 0 0 0 1, pos = Vec3 0 0 0, scl = Vec3 2 1 1 \<rparr>
                      \<lparr> rot = Quat (1/2) (1/2) (1/2) (1/2), pos = Vec3 0 0 0, scl = Vec3 2 1 1 \<rparr>
                      \<lparr> rot = Quat (1/2) (1/2) (1/2) (1/2), pos = Vec3 0 2 0, scl = Vec3 2 1 1 \<rparr>
                      \<lparr> rot = Quat 0 0 0 1, pos = Vec3 0 1 0, scl = Vec3 2 1 1 \<rparr>)"
    by (simp add: updateWorld_def updateWorld_step_def js_index_def numeral_eq_Suc
          Transform_fromMul_def Transform_mul_def Transform_new_def qTransform_def qMul_def Let_def)
  have g: "getWorld (ex_pose Transform_new Transform_new Transform_new Transform_new) 2 Transform_new =
       Some (Returns \<lparr> rot = Quat (1/2) (1/2) (1/2) (1/2), pos = Vec3 0 1 0, scl = Vec3 2 1 1 \<rparr>)"
    by (simp add: getWorld_def getJoint_def js_index_def walk_up_unfold
          Transform_fromMul_def Transform_pmul_def Transform_new_def qTransform_def qMul_def Let_def)
  show ?thesis using u g by simp
qed

text \<open>
  C1, amended: in exact arithmetic, for every pose whose joints are listed parents first,
  whose root offset and pose offset are rigid (unit rotation, uniform scale) and in which
  every joint that is the parent of a joint has a rigid local transform, \<open>updateWorld\<close>
  returns, and for every joint index \<open>i\<close> the transform \<open>getWorld (i)\<close>, called on the
  pose before or after the update, is the world transform that the update cached for joint
  \<open>i\<close>. For every pose, \<open>getWorld (-1)\<close> is \<open>fromMul (rootOffset, poseOffset)\<close>.
\<close>

theorem updateWorld_getWorld_agree:
  "(parents_first (joints p) \<and> rigid_parents (joints p) \<and> rigid (rootOffset p) \<and> rigid (poseOffset p) \<longrightarrow>
      (\<exists>p'. updateWorld p = Returns p'
         \<and> (\<forall>i<length (joints p).
               getWorld p (int i) out = Some (Returns (world (joints p' ! i)))
             \<and> getWorld p' (int i) out = Some (Returns (world (joints p' ! i))))))
   \<and> getWorld p (- 1) out = Some (Returns (Transform_fromMul (rootOffset p) (poseOffset p)))"
proof (intro conjI impI)
  show "getWorld p (- 1) out = Some (Returns (Transform_fromMul (rootOffset p) (poseOffset p)))"
    by (simp add: getWorld_def)
next
  assume h: "parents_first (joints p) \<and> rigid_parents (joints p) \<and> rigid (rootOffset p) \<and> rigid (poseOffset p)"
  then have pf: "parents_first (joints p)" and rp: "rigid_parents (joints p)"
    and rR: "rigid (rootOffset p)" and rP: "rigid (poseOffset p)" by simp_all
  from updateWorld_loop_correct [OF pf rp rR rP, of 0 "length (joints p)" "joints p" out]
  obtain js' where js': "updateWorld_loop (rootOffset p) (poseOffset p) (joints p) 0 (length (joints p)) = Returns js'"
    "length js' = length (joints p)"
    "\<forall>i<length (joints p). local (js' ! i) = local (joints p ! i) \<and> pindex (js' ! i) = pindex (joints p ! i)"
    "\<forall>i<length (joints p). getWorld p (int i) out = Some (Returns (world (js' ! i)))"
    by auto
  have u: "updateWorld p = Returns (p\<lparr> joints := js' \<rparr>)"
    using js'(1) by (simp add: updateWorld_def)
  have same: "\<forall>i<length (joints p). getWorld (p\<lparr> joints := js' \<rparr>) (int i) out = getWorld p (int i) out"
  proof (intro allI impI)
    fix i assume i: "i < length (joints p)"
    have "walk_up js' (js' ! i) (local (js' ! i)) = walk_up (joints p) (joints p ! i) (local (js' ! i))"
      by (rule walk_up_same_tree [OF pf js'(2) js'(3) i])
    then show "getWorld (p\<lparr> joints := js' \<rparr>) (int i) out = getWorld p (int i) out"
      using i js'(2,3) by (simp add: getWorld_joint split: option.split result.split)
  qed
  show "\<exists>p'. updateWorld p = Returns p'
         \<and> (\<forall>i<length (joints p).
               getWorld p (int i) out = Some (Returns (world (joints p' ! i)))
             \<and> getWorld p' (int i) out = Some (Returns (world (joints p' ! i))))"
    using u js'(4) same by auto
qed

theorem updateWorld_getWorld_agree_witness:
  "parents_first (joints (ex_rigid_pose Transform_new Transform_new Transform_new Transform_new))
   \<and> rigid_parents (joints (ex_rigid_pose Transform_new Transform_new Transform_new Transform_new))
   \<and> rigid \<lparr> rot = Quat 0 0 1 0, pos = Vec3 1 0 0, scl = Vec3 2 2 2 \<rparr>
   \<and> rigid Transform_new
   \<and> updateWorld (ex_rigid_pose Transform_new Transform_new Transform_new Transform_new) =
       Returns (ex_rigid_pose
         \<lparr> rot = Quat (- 1/2) (1/2) (1/2) (- 1/2), pos = Vec3 1 (- 2) 0, scl = Vec3 2 2 2 \<rparr>
         \<lparr> rot = Quat (- 1/2) (- 1/2) (- 1/2) (- 1/2), pos = Vec3 1 (- 2) 2, scl = Vec3 6 6 6 \<rparr>
         \<lparr> rot = Quat (- 1/2) (- 1/2) (- 1/2) (- 1/2), pos = Vec3 19 4 14, scl = Vec3 6 12 18 \<rparr>
         \<lparr> rot = Quat (- 1/2) (1/2) (1/2) (- 1/2), pos = Vec3 1 (- 4) 0, scl = Vec3 2 2 2 \<rparr>)
   \<and> getWorld (ex_rigid_pose Transform_new Transform_new Transform_new Transform_new) 2 Transform_new =
       Some (Returns \<lparr> rot = Quat (- 1/2) (- 1/2) (- 1/2) (- 1/2), pos = Vec3 19 4 14, scl = Vec3 6 12 18 \<rparr>)"
proof -
  let ?p = "ex_rigid_pose Transform_new Transform_new Transform_new Transform_new"
  have h: "parents_first (joints ?p) \<and> rigid_parents (joints ?p) \<and> rigid (rootOffset ?p) \<and> rigid (poseOffset ?p)"
    by (simp add: parents_first_def rigid_parents_def rigid_def unit_quat_def uniform_scale_def
          Transform_new_def upt_rec numeral_eq_Suc power2_eq_square)
  have u: "updateWorld ?p =
       Returns (ex_rigid_pose
         \<lparr> rot = Quat (- 1/2) (1/2) (1/2) (- 1/2), pos = Vec3 1 (- 2) 0, scl = Vec3 2 2 2 \<rparr>
         \<lparr> rot = Quat (- 1/2) (- 1/2) (- 1/2) (- 1/2), pos = Vec3 1 (- 2) 2, scl = Vec3 6 6 6 \<rparr>
         \<lparr> rot = Quat (- 1/2) (- 1/2) (- 1/2) (- 1/2), pos = Vec3 19 4 14, scl = Vec3 6 12 18 \<rparr>
         \<lparr> rot = Quat (- 1/2) (1/2) (1/2) (- 1/2), pos = Vec3 1 (- 4) 0, scl = Vec3 2 2 2 \<rparr>)"
    by (simp add: updateWorld_def updateWorld_step_def js_index_def numeral_eq_Suc
          Transform_fromMul_def Transform_mul_def Transform_new_def qTransform_def qMul_def Let_def)
  from updateWorld_getWorld_agree [of ?p Transform_new] h
  obtain p' where p': "updateWorld ?p = Returns p'"
    "\<forall>i<length (joints ?p). getWorld ?p (int i) Transform_new = Some (Returns (world (joints p' ! i)))"
    by blast
  have l: "(2::nat) < length (joints ?p)" by simp
  have "getWorld ?p (int 2) Transform_new = Some (Returns (world (joints p' ! 2)))"
    by (rule p'(2) [rule_format, OF l])
  moreover have "p' = ex_rigid_pose
         \<lparr> rot = Quat (- 1/2) (1/2) (1/2) (- 1/2), pos = Vec3 1 (- 2) 0, scl = Vec3 2 2 2 \<rparr>
         \<lparr> rot = Quat (- 1/2) (- 1/2) (- 1/2) (- 1/2), pos = Vec3 1 (- 2) 2, scl = Vec3 6 6 6 \<rparr>
         \<lparr> rot = Quat (- 1/2) (- 1/2) (- 1/2) (- 1/2), pos = Vec3 19 4 14, scl = Vec3 6 12 18 \<rparr>
         \<lparr> rot = Quat (- 1/2) (1/2) (1/2) (- 1/2), pos = Vec3 1 (- 4) 0, scl = Vec3 2 2 2 \<rparr>"
    using p'(1) u by simp
  ultimately have g: "getWorld ?p 2 Transform_new =
       Some (Returns \<lparr> rot = Quat (- 1/2) (- 1/2) (- 1/2) (- 1/2), pos = Vec3 19 4 14, scl = Vec3 6 12 18 \<rparr>)"
    by simp
  show ?thesis using h u g by simp
qed

section \<open>Poses in the store: reset and clone\<close>

subsection \<open>The loop of reset\<close>

lemma reset_loop_correct:
  "i + n = length js \<Longrightarrow> length js \<le> length ss \<Longrightarrow>
   \<exists>js'. reset_loop js ss i n = Returns js' \<and> length js' = length js
      \<and> (\<forall>k<length js. js' ! k = (if i \<le> k then (js ! k)\<lparr> local := local (ss ! k) \<rparr> else js ! k))"
proof (induction n arbitrary: i js)
  case 0
  then show ?case by simp
next
  case (Suc n)
  have i: "i < length js" "i < length ss" using Suc.prems by simp_all
  let ?js1 = "js[i := (js ! i)\<lparr> local := local (ss ! i) \<rparr>]"
  have "Suc i + n = length ?js1" "length ?js1 \<le> length ss" using Suc.prems by simp_all
  from Suc.IH [OF this]
  obtain js' where js': "reset_loop ?js1 ss (Suc i) n = Returns js'" "length js' = length ?js1"
    "\<forall>k<length ?js1. js' ! k = (if Suc i \<le> k then (?js1 ! k)\<lparr> local := local (ss ! k) \<rparr> else ?js1 ! k)"
    by blast
  have "reset_loop js ss i (Suc n) = Returns js'"
    using js'(1) i by (simp add: js_index_def)
  moreover have "length js' = length js" using js'(2) by simp
  moreover have "\<forall>k<length js. js' ! k = (if i \<le> k then (js ! k)\<lparr> local := local (ss ! k) \<rparr> else js ! k)"
  proof (intro allI impI)
    fix k assume k: "k < length js"
    consider "k < i" | "k = i" | "Suc i \<le> k" by linarith
    then show "js' ! k = (if i \<le> k then (js ! k)\<lparr> local := local (ss ! k) \<rparr> else js ! k)"
      using js'(3) i(1) k by cases (simp_all add: nth_list_update)
  qed
  ultimately show ?case by blast
qed

lemma reset_loop_no_report: "reset_loop js ss i n \<noteq> ReportsError x"
  by (induction n arbitrary: i js) (auto simp: split: option.splits)

lemma Pose_reset_from_source:
  assumes "this < length st" "srcPose (st ! this) = Some src"
    and "length (joints (st ! this)) \<le> length (joints (st ! src))"
  shows "\<exists>st'. Pose_reset st this = Returns st'
             \<and> length st' = length st
             \<and> (\<forall>a<length st. a \<noteq> this \<longrightarrow> st' ! a = st ! a)
             \<and> srcPose (st' ! this) = srcPose (st ! this)
             \<and> nameIdx (st' ! this) = nameIdx (st ! this)
             \<and> rootOffset (st' ! this) = rootOffset (st ! this)
             \<and> poseOffset (st' ! this) = poseOffset (st ! this)
             \<and> length (joints (st' ! this)) = length (joints (st ! this))
             \<and> (\<forall>i<length (joints (st ! this)).
                   joints (st' ! this) ! i =
                     (joints (st ! this) ! i)\<lparr> local := local (joints (st ! src) ! i) \<rparr>)"
proof -
  from reset_loop_correct [of 0 "length (joints (st ! this))" "joints (st ! this)" "joints (st ! src)"] assms(3)
  obtain js' where js': "reset_loop (joints (st ! this)) (joints (st ! src)) 0 (length (joints (st ! this))) = Returns js'"
    "length js' = length (joints (st ! this))"
    "\<forall>k<length (joints (st ! this)). js' ! k = (joints (st ! this) ! k)\<lparr> local := local (joints (st ! src) ! k) \<rparr>"
    by auto
  have r: "Pose_reset st this = Returns (st[this := (st ! this)\<lparr> joints := js' \<rparr>])"
    using assms(2) js'(1) by (simp add: Pose_reset_def)
  show ?thesis using r assms(1) js'(2,3) by simp
qed

lemma Pose_reset_no_source:
  "srcPose (st ! this) = None \<Longrightarrow> Pose_reset st this = ReportsError st"
  by (simp add: Pose_reset_def)

lemma Pose_reset_reports_iff:
  "(\<exists>x. Pose_reset st this = ReportsError x) \<longleftrightarrow> srcPose (st ! this) = None"
  by (auto simp: Pose_reset_def reset_loop_no_report split: option.splits result.splits)

subsection \<open>reset\<close>

text \<open>
  C6, as the claim states it, fails. The claim asks nothing of a set \<open>srcPose\<close>, and the
  fields \<open>srcPose\<close> and \<open>joints\<close> are public. In the store below the pose at reference
  1 has two joints and its source, at reference 0, has one. \<open>reset\<close> copies the local
  transform of joint 0 and then throws a TypeError at \<open>this.srcPose.joints[1].local\<close>:
  joint 1 keeps its local transform, and the call does not return.
\<close>

theorem Pose_reset_short_source_counterexample:
  "(1::nat) < length ex_short_store
   \<and> srcPose (ex_short_store ! 1) = Some 0
   \<and> Pose_reset ex_short_store 1 =
       Throws TypeError [ex_single_pose, ex_small_pose (Some 0) ex_rest_root ex_bent_tip]
   \<and> js_index (joints (ex_short_store ! 0)) 1 = None"
  by (simp add: Pose_reset_def js_index_def numeral_eq_Suc)

text \<open>
  C6, amended. For every pose \<open>this\<close> of the store: when its \<open>srcPose\<close> is null, \<open>reset\<close>
  reports the error and leaves the store, hence every joint, as it is. When its
  \<open>srcPose\<close> is a pose \<open>src\<close> that has at least as many joints as \<open>this\<close>, \<open>reset\<close>
  returns normally; no other pose changes; the pose keeps its source, name index, offsets
  and number of joints; and joint \<open>i\<close> is the old joint \<open>i\<close> (same name, index, parent
  index, children, world transform) with the local transform of joint \<open>i\<close> of \<open>src\<close>.
\<close>

theorem Pose_reset_spec:
  "this < length st \<longrightarrow>
    (srcPose (st ! this) = None \<longrightarrow> Pose_reset st this = ReportsError st)
    \<and> (\<forall>src. srcPose (st ! this) = Some src \<and> src < length st
              \<and> length (joints (st ! this)) \<le> length (joints (st ! src)) \<longrightarrow>
          (\<exists>st'. Pose_reset st this = Returns st'
             \<and> length st' = length st
             \<and> (\<forall>a<length st. a \<noteq> this \<longrightarrow> st' ! a = st ! a)
             \<and> srcPose (st' ! this) = srcPose (st ! this)
             \<and> nameIdx (st' ! this) = nameIdx (st ! this)
             \<and> rootOffset (st' ! this) = rootOffset (st ! this)
             \<and> poseOffset (st' ! this) = poseOffset (st ! this)
             \<and> length (joints (st' ! this)) = length (joints (st ! this))
             \<and> (\<forall>i<length (joints (st ! this)).
                   joints (st' ! this) ! i =
                     (joints (st ! this) ! i)\<lparr> local := local (joints (st ! src) ! i) \<rparr>)))"
  using Pose_reset_from_source [of this st] Pose_reset_no_source [of st this] by blast

theorem Pose_reset_spec_witness:
  "(1::nat) < length ex_store
   \<and> srcPose (ex_store ! 1) = Some 0
   \<and> length (joints (ex_store ! 1)) \<le> length (joints (ex_store ! 0))
   \<and> Pose_reset ex_store 1 =
       Returns [ex_small_pose None ex_rest_root ex_rest_tip,
                ex_small_pose (Some 0) ex_rest_root ex_rest_tip]
   \<and> srcPose (ex_store ! 0) = None
   \<and> Pose_reset ex_store 0 = ReportsError ex_store"
proof -
  have ev: "Pose_reset ex_store 1 =
       Returns [ex_small_pose None ex_rest_root ex_rest_tip,
                ex_small_pose (Some 0) ex_rest_root ex_rest_tip]"
    by (simp add: Pose_reset_def js_index_def numeral_eq_Suc)
  have l0: "(0::nat) < length ex_store" by simp
  have n0: "srcPose (ex_store ! 0) = None" by simp
  have r0: "Pose_reset ex_store 0 = ReportsError ex_store"
    using Pose_reset_spec [of 0 ex_store] l0 n0 by blast
  have l1: "(1::nat) < length ex_store" by simp
  have s1: "srcPose (ex_store ! 1) = Some 0 \<and> (0::nat) < length ex_store
      \<and> length (joints (ex_store ! 1)) \<le> length (joints (ex_store ! 0))" by simp
  from Pose_reset_spec [of 1 ex_store] l1 s1
  obtain st' where r1: "Pose_reset ex_store 1 = Returns st'"
    and j1: "\<forall>i<length (joints (ex_store ! 1)).
         joints (st' ! 1) ! i =
           (joints (ex_store ! 1) ! i)\<lparr> local := local (joints (ex_store ! 0) ! i) \<rparr>"
    by blast
  show ?thesis using ev r0 r1 by simp
qed

subsection \<open>clone\<close>

lemma Pose_clone_result:
  "Pose_clone st this = (length st,
     st @ [\<lparr> srcPose = Some (case srcPose (st ! this) of Some s \<Rightarrow> s | None \<Rightarrow> this),
               nameIdx = nameIdx (st ! this),
               joints = map Joint_clone (joints (st ! this)),
               rootOffset = rootOffset (st ! this),
               poseOffset = poseOffset (st ! this) \<rparr>])"
  by (simp add: Pose_clone_def Let_def split: option.split)

text \<open>
  C10, as the claim states it, fails in its last part. In the store above the pose at
  reference 1 has two joints and a source with one. Its clone has that source, which is
  not null; but \<open>reset\<close> on the clone copies the local transform of joint 0 and throws a
  TypeError at joint 1, so it does not restore each joint from the root.
\<close>

theorem Pose_clone_short_source_counterexample:
  "(1::nat) < length ex_short_store
   \<and> Pose_clone ex_short_store 1 =
       (2, [ex_single_pose,
            ex_small_pose (Some 0) ex_bent_root ex_bent_tip,
            ex_small_pose (Some 0) ex_bent_root ex_bent_tip])
   \<and> Pose_reset [ex_single_pose,
                  ex_small_pose (Some 0) ex_bent_root ex_bent_tip,
                  ex_small_pose (Some 0) ex_bent_root ex_bent_tip] 2 =
       Throws TypeError [ex_single_pose,
                         ex_small_pose (Some 0) ex_bent_root ex_bent_tip,
                         ex_small_pose (Some 0) ex_rest_root ex_bent_tip]"
  by (simp add: Pose_clone_def Joint_clone_def Let_def Pose_reset_def js_index_def numeral_eq_Suc)

text \<open>
  C10, amended. For every pose \<open>this\<close> of the store, \<open>clone\<close> allocates a new pose \<open>c\<close>
  and changes no other; the \<open>srcPose\<close> of \<open>c\<close> is never null: it is the \<open>srcPose\<close> of
  \<open>this\<close> when that is set, and \<open>this\<close> itself otherwise; a clone of \<open>c\<close> has
  that same source again. So \<open>reset\<close> on \<open>c\<close> never takes the missing-source branch,
  and when that source, the root, has at least as many joints as \<open>this\<close> (as it has
  when \<open>this\<close> is the root itself), \<open>reset\<close> returns normally with the local transform
  of every joint of \<open>c\<close> taken from the root (as the root is when \<open>reset\<close> is called),
  not from \<open>this\<close>.
\<close>

theorem Pose_clone_source:
  "this < length st \<and> Pose_clone st this = (c, st') \<longrightarrow>
     c = length st \<and> length st' = Suc (length st)
   \<and> (\<forall>a<length st. st' ! a = st ! a)
   \<and> srcPose (st' ! c) = Some (case srcPose (st ! this) of Some s \<Rightarrow> s | None \<Rightarrow> this)
   \<and> (\<forall>c2 st2. Pose_clone st' c = (c2, st2) \<longrightarrow>
         srcPose (st2 ! c2) = Some (case srcPose (st ! this) of Some s \<Rightarrow> s | None \<Rightarrow> this))
   \<and> (\<forall>x. Pose_reset st' c \<noteq> ReportsError x)
   \<and> (\<forall>root. root = (case srcPose (st ! this) of Some s \<Rightarrow> s | None \<Rightarrow> this)
          \<and> root < length st \<and> length (joints (st ! this)) \<le> length (joints (st ! root)) \<longrightarrow>
        (\<exists>st''. Pose_reset st' c = Returns st''
           \<and> length (joints (st'' ! c)) = length (joints (st ! this))
           \<and> (\<forall>i<length (joints (st ! this)).
                 local (joints (st'' ! c) ! i) = local (joints (st ! root) ! i))))"
proof (intro impI)
  assume h: "this < length st \<and> Pose_clone st this = (c, st')"
  define root where "root = (case srcPose (st ! this) of Some s \<Rightarrow> s | None \<Rightarrow> this)"
  define pc where "pc = \<lparr> srcPose = Some root, nameIdx = nameIdx (st ! this),
               joints = map Joint_clone (joints (st ! this)),
               rootOffset = rootOffset (st ! this), poseOffset = poseOffset (st ! this) \<rparr>"
  have c: "c = length st" and st': "st' = st @ [pc]"
    using h by (simp_all add: Pose_clone_result root_def pc_def)
  have at_c: "st' ! c = pc" by (simp add: c st')
  have old: "\<forall>a<length st. st' ! a = st ! a" by (simp add: st' nth_append)
  have src: "srcPose (st' ! c) = Some root" by (simp add: at_c pc_def)
  have again: "\<forall>c2 st2. Pose_clone st' c = (c2, st2) \<longrightarrow> srcPose (st2 ! c2) = Some root"
    by (simp add: Pose_clone_result src nth_append)
  have norep: "\<forall>x. Pose_reset st' c \<noteq> ReportsError x"
    using Pose_reset_reports_iff [of st' c] src by simp
  have rs: "\<exists>st''. Pose_reset st' c = Returns st''
           \<and> length (joints (st'' ! c)) = length (joints (st ! this))
           \<and> (\<forall>i<length (joints (st ! this)).
                 local (joints (st'' ! c) ! i) = local (joints (st ! root) ! i))"
    if r: "root < length st" "length (joints (st ! this)) \<le> length (joints (st ! root))"
  proof -
    have cl: "c < length st'" by (simp add: c st')
    have sr: "st' ! root = st ! root" using old r(1) by simp
    have le: "length (joints (st' ! c)) \<le> length (joints (st' ! root))"
      using r(2) by (simp add: at_c sr pc_def)
    from Pose_reset_from_source [OF cl src le]
    obtain st'' where s: "Pose_reset st' c = Returns st''"
      "length (joints (st'' ! c)) = length (joints (st' ! c))"
      "\<forall>i<length (joints (st' ! c)). joints (st'' ! c) ! i =
          (joints (st' ! c) ! i)\<lparr> local := local (joints (st' ! root) ! i) \<rparr>"
      by blast
    have "length (joints (st' ! c)) = length (joints (st ! this))" by (simp add: at_c pc_def)
    then show ?thesis using s sr by auto
  qed
  show "c = length st \<and> length st' = Suc (length st)
   \<and> (\<forall>a<length st. st' ! a = st ! a)
   \<and> srcPose (st' ! c) = Some (case srcPose (st ! this) of Some s \<Rightarrow> s | None \<Rightarrow> this)
   \<and> (\<forall>c2 st2. Pose_clone st' c = (c2, st2) \<longrightarrow>
         srcPose (st2 ! c2) = Some (case srcPose (st ! this) of Some s \<Rightarrow> s | None \<Rightarrow> this))
   \<and> (\<forall>x. Pose_reset st' c \<noteq> ReportsError x)
   \<and> (\<forall>root. root = (case srcPose (st ! this) of Some s \<Rightarrow> s | None \<Rightarrow> this)
          \<and> root < length st \<and> length (joints (st ! this)) \<le> length (joints (st ! root)) \<longrightarrow>
        (\<exists>st''. Pose_reset st' c = Returns st''
           \<and> length (joints (st'' ! c)) = length (joints (st ! this))
           \<and> (\<forall>i<length (joints (st ! this)).
                 local (joints (st'' ! c) ! i) = local (joints (st ! root) ! i))))"
    using c st' old src again norep rs unfolding root_def [symmetric] by simp
qed

theorem Pose_clone_source_witness:
  "(1::nat) < length ex_store
   \<and> Pose_clone ex_store 1 =
       (2, [ex_small_pose None ex_rest_root ex_rest_tip,
            ex_small_pose (Some 0) ex_bent_root ex_bent_tip,
            ex_small_pose (Some 0) ex_bent_root ex_bent_tip])
   \<and> (0::nat) = (case srcPose (ex_store ! 1) of Some s \<Rightarrow> s | None \<Rightarrow> 1)
   \<and> (0::nat) < length ex_store
   \<and> length (joints (ex_store ! 1)) \<le> length (joints (ex_store ! 0))
   \<and> Pose_reset [ex_small_pose None ex_rest_root ex_rest_tip,
                  ex_small_pose (Some 0) ex_bent_root ex_bent_tip,
                  ex_small_pose (Some 0) ex_bent_root ex_bent_tip] 2 =
       Returns [ex_small_pose None ex_rest_root ex_rest_tip,
                ex_small_pose (Some 0) ex_bent_root ex_bent_tip,
                ex_small_pose (Some 0) ex_rest_root ex_rest_tip]"
proof -
  let ?st' = "[ex_small_pose None ex_rest_root ex_rest_tip,
               ex_small_pose (Some 0) ex_bent_root ex_bent_tip,
               ex_small_pose (Some 0) ex_bent_root ex_bent_tip]"
  have l: "(1::nat) < length ex_store" by simp
  have cl: "Pose_clone ex_store 1 = (2, ?st')"
    by (simp add: Pose_clone_def Joint_clone_def Let_def)
  have rt: "(0::nat) = (case srcPose (ex_store ! 1) of Some s \<Rightarrow> s | None \<Rightarrow> 1)
      \<and> (0::nat) < length ex_store
      \<and> length (joints (ex_store ! 1)) \<le> length (joints (ex_store ! 0))"
    by simp
  from Pose_clone_source [of 1 ex_store 2 ?st'] l cl
  have src: "srcPose (?st' ! 2) = Some (case srcPose (ex_store ! 1) of Some s \<Rightarrow> s | None \<Rightarrow> 1)"
    and rs: "\<forall>root. root = (case srcPose (ex_store ! 1) of Some s \<Rightarrow> s | None \<Rightarrow> 1)
          \<and> root < length ex_store
          \<and> length (joints (ex_store ! 1)) \<le> length (joints (ex_store ! root)) \<longrightarrow>
        (\<exists>st''. Pose_reset ?st' 2 = Returns st''
           \<and> length (joints (st'' ! 2)) = length (joints (ex_store ! 1))
           \<and> (\<forall>i<length (joints (ex_store ! 1)).
                 local (joints (st'' ! 2) ! i) = local (joints (ex_store ! 0) ! i)))"
    by simp_all
  from rs rt obtain st'' where "Pose_reset ?st' 2 = Returns st''" by blast
  have ev: "Pose_reset ?st' 2 =
       Returns [ex_small_pose None ex_rest_root ex_rest_tip,
                ex_small_pose (Some 0) ex_bent_root ex_bent_tip,
                ex_small_pose (Some 0) ex_rest_root ex_rest_tip]"
    using src by (simp add: Pose_reset_def js_index_def numeral_eq_Suc)
  show ?thesis using l cl rt ev by simp
qed
section \<open>getWorld at an index that is not a joint\<close>

text \<open>
  C7. What the code does where the claim expects a reported error and an unchanged
  \<open>out\<close>: for every pose and every index that is neither \<open>-1\<close> nor the index of a
  joint, \<open>getWorld\<close> throws a \<open>TypeError\<close>. \<open>getJoint\<close> returns \<open>undefined\<close> for
  such a number, the test \<open>joint === null\<close> fails, and the error branch with its
  \<open>console.error\<close> is skipped; the next statement reads \<open>joint.local\<close>. The pose and
  \<open>out\<close> are unchanged at the throw.
\<close>

theorem getWorld_unknown_index:
  "joint_idx \<noteq> - 1 \<Longrightarrow> \<not> (0 \<le> joint_idx \<and> joint_idx < int (length (joints p))) \<Longrightarrow>
   getWorld p joint_idx out = Some (Throws TypeError out)"
  by (auto simp add: getWorld_def getJoint_def js_index_def)

theorem getWorld_unknown_index_witness:
  "(4::int) \<noteq> - 1
   \<and> \<not> (0 \<le> (4::int) \<and> (4::int) < int (length (joints (ex_pose Transform_new Transform_new Transform_new Transform_new))))
   \<and> getWorld (ex_pose Transform_new Transform_new Transform_new Transform_new) 4
        \<lparr> rot = Quat 0 1 0 0, pos = Vec3 1 2 3, scl = Vec3 1 1 1 \<rparr>
      = Some (Throws TypeError \<lparr> rot = Quat 0 1 0 0, pos = Vec3 1 2 3, scl = Vec3 1 1 1 \<rparr>)
   \<and> getWorld (ex_pose Transform_new Transform_new Transform_new Transform_new) (- 2) Transform_new
      = Some (Throws TypeError Transform_new)"
proof -
  let ?p = "ex_pose Transform_new Transform_new Transform_new Transform_new"
  have h1: "(4::int) \<noteq> - 1" by simp
  have h2: "\<not> (0 \<le> (4::int) \<and> (4::int) < int (length (joints ?p)))" by simp
  have h3: "(- 2::int) \<noteq> - 1" by simp
  have h4: "\<not> (0 \<le> (- 2::int) \<and> (- 2::int) < int (length (joints ?p)))" by simp
  show ?thesis
    using h1 h2 getWorld_unknown_index [OF h1 h2, of "\<lparr> rot = Quat 0 1 0 0, pos = Vec3 1 2 3, scl = Vec3 1 1 1 \<rparr>"]
      getWorld_unknown_index [OF h3 h4, of Transform_new]
    by simp
qed

section \<open>What a chain operator may change\<close>

lemma only_rot_changed_refl: "only_rot_changed first p p"
  by (simp add: only_rot_changed_def list_all_iff)

lemma frame_of_apply_refl: "frame_of_apply first rt rt"
  by (simp add: frame_of_apply_def only_rot_changed_refl split: option.split)

lemma setRot_frame:
  assumes "setRot p i r = Returns p'"
  shows "only_rot_changed (Some i) p p'"
proof -
  from assms obtain j where j: "js_index (joints p) i = Some j"
    and p': "p' = p\<lparr> joints := (joints p)[nat i := j\<lparr> local := (local j)\<lparr> rot := r \<rparr> \<rparr>] \<rparr>"
    by (auto simp: setRot_def split: option.splits)
  from j have i: "0 \<le> i" "nat i < length (joints p)" and jj: "j = joints p ! nat i"
    by (auto simp: js_index_def split: if_splits)
  show ?thesis
    using i by (auto simp: only_rot_changed_def p' jj list_all_iff nth_list_update)
qed

lemma AxisAdditive_apply_frame:
  assumes "AxisAdditive_apply this rt = Some res"
  shows "frame_of_apply (chain_first rt (chainName this)) rt (state_of res)"
  using assms
  by (auto simp: AxisAdditive_apply_def Let_def chain_first_def frame_of_apply_def
        only_rot_changed_refl
      dest: setRot_frame
      split: if_splits option.splits list.splits prod.splits result.splits)

lemma ChainTwistAdditive_apply_frame:
  assumes "ChainTwistAdditive_apply this rt = Some res"
  shows "frame_of_apply (chain_first rt (twistChainName this)) rt (state_of res)"
  using assms
  by (auto simp: ChainTwistAdditive_apply_def Let_def chain_first_def frame_of_apply_def
        only_rot_changed_refl
      dest: setRot_frame
      split: if_splits option.splits list.splits prod.splits result.splits)

text \<open>
  C5. For every retargeter (rig, chains and pose) and either operator: with angle exactly
  0, \<open>apply\<close> returns at once and the retargeter, hence every joint's local transform, is
  unchanged. With any angle, however \<open>apply\<close> ends (normal return, reported error or
  throw), the pose afterwards differs from the pose before at most in the local rotation of
  the joint whose index the first item of the chain carries: every other joint is
  unchanged altogether, and that joint keeps its local position and scale and all its
  other fields; the rig and the pose's offsets are unchanged too.
\<close>

theorem chain_apply_frame:
  "(angle a = 0 \<longrightarrow> AxisAdditive_apply a rt = Some (Returns rt))
   \<and> (twistAngle t = 0 \<longrightarrow> ChainTwistAdditive_apply t rt = Some (Returns rt))
   \<and> (\<forall>res. AxisAdditive_apply a rt = Some res \<longrightarrow>
         frame_of_apply (chain_first rt (chainName a)) rt (state_of res))
   \<and> (\<forall>res. ChainTwistAdditive_apply t rt = Some res \<longrightarrow>
         frame_of_apply (chain_first rt (twistChainName t)) rt (state_of res))"
  by (simp add: AxisAdditive_apply_frame ChainTwistAdditive_apply_frame
        AxisAdditive_apply_def ChainTwistAdditive_apply_def)

theorem chain_apply_frame_witness:
  "AxisAdditive_apply \<lparr> chainName = ''leg'', onAxis = ''y'', angle = pi \<rparr> ex_retargeter
   = Some (Returns
      \<lparr> tarRig = Some ex_rig,
        pose = Some ((ex_pose Transform_new Transform_new Transform_new Transform_new)
                 \<lparr> joints := (joints (ex_pose Transform_new Transform_new Transform_new Transform_new))
                     [3 := ex_joint ''leg'' 3 0 []
                            \<lparr> rot = Quat 0 1 0 0, pos = Vec3 0 1 0, scl = Vec3 1 1 1 \<rparr>
                            Transform_new] \<rparr>) \<rparr>)
   \<and> frame_of_apply (Some 3) ex_retargeter
      \<lparr> tarRig = Some ex_rig,
        pose = Some ((ex_pose Transform_new Transform_new Transform_new Transform_new)
                 \<lparr> joints := (joints (ex_pose Transform_new Transform_new Transform_new Transform_new))
                     [3 := ex_joint ''leg'' 3 0 []
                            \<lparr> rot = Quat 0 1 0 0, pos = Vec3 0 1 0, scl = Vec3 1 1 1 \<rparr>
                            Transform_new] \<rparr>) \<rparr>
   \<and> ChainTwistAdditive_apply \<lparr> twistChainName = ''spine'', twistAngle = pi \<rparr> ex_retargeter
   = Some (Returns
      \<lparr> tarRig = Some ex_rig,
        pose = Some ((ex_pose Transform_new Transform_new Transform_new Transform_new)
                 \<lparr> joints := (joints (ex_pose Transform_new Transform_new Transform_new Transform_new))
                     [1 := ex_joint ''spine'' 1 0 [2]
                            \<lparr> rot = Quat (1/2) (1/2) (- 1/2) (- 1/2), pos = Vec3 0 0 0,
                              scl = Vec3 1 1 1 \<rparr>
                            Transform_new] \<rparr>) \<rparr>)
   \<and> frame_of_apply (Some 1) ex_retargeter
      \<lparr> tarRig = Some ex_rig,
        pose = Some ((ex_pose Transform_new Transform_new Transform_new Transform_new)
                 \<lparr> joints := (joints (ex_pose Transform_new Transform_new Transform_new Transform_new))
                     [1 := ex_joint ''spine'' 1 0 [2]
                            \<lparr> rot = Quat (1/2) (1/2) (- 1/2) (- 1/2), pos = Vec3 0 0 0,
                              scl = Vec3 1 1 1 \<rparr>
                            Transform_new] \<rparr>) \<rparr>
   \<and> AxisAdditive_apply \<lparr> chainName = ''leg'', onAxis = ''y'', angle = 0 \<rparr> ex_retargeter
   = Some (Returns ex_retargeter)
   \<and> ChainTwistAdditive_apply \<lparr> twistChainName = ''spine'', twistAngle = 0 \<rparr> ex_retargeter
   = Some (Returns ex_retargeter)"
proof -
  let ?a = "\<lparr> chainName = ''leg'', onAxis = ''y'', angle = pi \<rparr>"
  let ?t = "\<lparr> twistChainName = ''spine'', twistAngle = pi \<rparr>"
  let ?az = "\<lparr> chainName = ''leg'', onAxis = ''y'', angle = 0 \<rparr>"
  let ?tz = "\<lparr> twistChainName = ''spine'', twistAngle = 0 \<rparr>"
  let ?rt1 = "\<lparr> tarRig = Some ex_rig,
        pose = Some ((ex_pose Transform_new Transform_new Transform_new Transform_new)
                 \<lparr> joints := (joints (ex_pose Transform_new Transform_new Transform_new Transform_new))
                     [3 := ex_joint ''leg'' 3 0 []
                            \<lparr> rot = Quat 0 1 0 0, pos = Vec3 0 1 0, scl = Vec3 1 1 1 \<rparr>
                            Transform_new] \<rparr>) \<rparr>"
  let ?rt2 = "\<lparr> tarRig = Some ex_rig,
        pose = Some ((ex_pose Transform_new Transform_new Transform_new Transform_new)
                 \<lparr> joints := (joints (ex_pose Transform_new Transform_new Transform_new Transform_new))
                     [1 := ex_joint ''spine'' 1 0 [2]
                            \<lparr> rot = Quat (1/2) (1/2) (- 1/2) (- 1/2), pos = Vec3 0 0 0,
                              scl = Vec3 1 1 1 \<rparr>
                            Transform_new] \<rparr>) \<rparr>"
  have e1: "AxisAdditive_apply ?a ex_retargeter = Some (Returns ?rt1)"
    by (simp add: AxisAdditive_apply_def getWorld_def getJoint_def js_index_def walk_up_unfold
          setRot_def Quat_fromAxisAngle_pi Quat_mul_def Quat_pmulInvert_def Vec3_fromQuat_def
          Transform_fromMul_def Transform_pmul_def Transform_new_def qTransform_def qMul_def Let_def)
  have e2: "ChainTwistAdditive_apply ?t ex_retargeter = Some (Returns ?rt2)"
    by (simp add: ChainTwistAdditive_apply_def getWorld_def getJoint_def js_index_def walk_up_unfold
          setRot_def Quat_fromAxisAngle_pi Quat_mul_def Quat_pmulInvert_def Vec3_fromSub_def
          Vec3_norm_def Transform_fromMul_def Transform_pmul_def Transform_new_def qTransform_def
          qMul_def Let_def)
  have c1: "chain_first ex_retargeter (chainName ?a) = Some 3"
    by (simp add: chain_first_def)
  have c2: "chain_first ex_retargeter (twistChainName ?t) = Some 1"
    by (simp add: chain_first_def)
  from chain_apply_frame [of ?a ex_retargeter ?t]
  have "frame_of_apply (chain_first ex_retargeter (chainName ?a)) ex_retargeter (state_of (Returns ?rt1))"
    and "frame_of_apply (chain_first ex_retargeter (twistChainName ?t)) ex_retargeter (state_of (Returns ?rt2))"
    using e1 e2 by blast+
  then have f: "frame_of_apply (Some 3) ex_retargeter ?rt1" "frame_of_apply (Some 1) ex_retargeter ?rt2"
    unfolding c1 c2 by simp_all
  have z: "angle ?az = 0" "twistAngle ?tz = 0" by simp_all
  from chain_apply_frame [of ?az ex_retargeter ?tz] z
  have e0: "AxisAdditive_apply ?az ex_retargeter = Some (Returns ex_retargeter)"
    "ChainTwistAdditive_apply ?tz ex_retargeter = Some (Returns ex_retargeter)" by blast+
  show ?thesis using e1 f e2 e0 by simp
qed

section \<open>The swing between opposite directions\<close>




section \<open>Normalised names of paired bones\<close>

text \<open>
  C4. What the code does where the claim expects equal strings: \<open>LeftUpperArm\<close> is
  classified arms/left and \<open>RightUpperArm\<close> arms/right, and their normalised names are
  \<open>leftupperarm\<close> and \<open>rightupperarm\<close>, which differ. The side tokens are not
  stripped: after lower-casing, \<open>left\<close> and \<open>right\<close> are followed by a word character,
  so \<open>\b(left|right|l|r)\b\<close> does not match. The underscore is a word character too, so
  even \<open>arm_left\<close> and \<open>arm_right\<close>, the example of the comment in the source
  (``both become arm''), keep their side tokens.
\<close>

theorem upper_arm_names_not_merged:
  "create_bone_metadata ''LeftUpperArm'' None =
     \<lparr> meta_name = ''LeftUpperArm'', normalized_name = ''leftupperarm'',
       side = Left, category = Arms, parent_name = None \<rparr>
   \<and> create_bone_metadata ''RightUpperArm'' None =
     \<lparr> meta_name = ''RightUpperArm'', normalized_name = ''rightupperarm'',
       side = Right, category = Arms, parent_name = None \<rparr>
   \<and> normalize_bone_name ''LeftUpperArm'' Arms Left \<noteq> normalize_bone_name ''RightUpperArm'' Arms Right
   \<and> normalize_bone_name ''arm_left'' Arms Left = ''arm_left''
   \<and> normalize_bone_name ''arm_right'' Arms Right = ''arm_right''"
  by code_simp

end
